theory Spec2Isabelle
  imports Complex_Main "HOL-Library.AList"
begin

section \<open>Python values and errors\<close>

text \<open>
  The hub keeps its documents (catalog, profile, statistics) as JSON-shaped Python
  values. A number is a rational (a JSON number is an int or a finite float, and Python
  compares the two by value); a dict is an association list in insertion order, read with
  \<open>map_of\<close> and written with \<open>AList.update\<close>, which replaces the value of a
  key in place and appends a new key at the end, as a Python dict does. A string of a
  document (a key, an id, a file name) is a list of characters, one \<open>char\<close> per
  character of the Python string; these strings are only compared and passed on.
\<close>

datatype pyval =
    PNone
  | PBool bool
  | PNum rat
  | PStr string
  | PList "pyval list"
  | PDict "(string \<times> pyval) list"

datatype error =
  KeyError | TypeError | AttributeError | ZeroDivisionError | OverflowError | UnicodeEncodeError

type_synonym pydict = "(string \<times> pyval) list"

text \<open>Truth value of a Python object, as \<open>if x:\<close> tests it.\<close>

fun truthy :: "pyval \<Rightarrow> bool" where
  "truthy PNone = False"
| "truthy (PBool b) = b"
| "truthy (PNum n) = (n \<noteq> 0)"
| "truthy (PStr s) = (s \<noteq> [])"
| "truthy (PList xs) = (xs \<noteq> [])"
| "truthy (PDict d) = (d \<noteq> [])"

text \<open>
  A value used as a dict key or set member is hashed: lists and dicts are unhashable
  (TypeError). Keys that Python regards as equal (\<open>True == 1\<close>, \<open>False == 0\<close>) get
  one representative.
\<close>

fun py_key :: "pyval \<Rightarrow> error + pyval" where
  "py_key (PList xs) = Inl TypeError"
| "py_key (PDict d) = Inl TypeError"
| "py_key (PBool b) = Inr (PNum (if b then 1 else 0))"
| "py_key v = Inr v"

text \<open>\<open>xs[:k]\<close>: a negative bound counts from the end.\<close>

definition py_take :: "int \<Rightarrow> 'a list \<Rightarrow> 'a list" where
  "py_take k xs =
     (if 0 \<le> k then take (nat k) xs else take (nat (int (length xs) + k)) xs)"

subsection \<open>Ints and floats\<close>

text \<open>
  The value of an arithmetic expression is an int (unbounded) or a float. A finite float
  is kept as the exact rational it stands for: the rounding of a finite result to the
  nearest double, and with it underflow, is left out. What raises is kept exactly, since
  it depends on the int operands only: an int of magnitude \<open>2^1024 - 2^970\<close> or more
  cannot be converted to a float (OverflowError), the true division of two ints whose
  quotient has that magnitude raises OverflowError, and a division by zero raises
  ZeroDivisionError. Float multiplication, addition and division do not raise: a result
  of that magnitude is an infinity, and infinities and NaN propagate as in IEEE 754.
\<close>

datatype pyfloat = Finite rat | PosInf | NegInf | NaN

datatype pynum = PyInt int | PyFloat pyfloat

definition float_limit :: rat where
  "float_limit = 2 ^ 1024 - 2 ^ 970"

definition round_float :: "rat \<Rightarrow> pyfloat" where
  "round_float x =
     (if float_limit \<le> x then PosInf else if x \<le> - float_limit then NegInf else Finite x)"

text \<open>The conversion of an int operand in mixed arithmetic.\<close>

definition int_to_float :: "int \<Rightarrow> error + pyfloat" where
  "int_to_float n =
     (if float_limit \<le> \<bar>of_int n\<bar> then Inl OverflowError else Inr (Finite (of_int n)))"

fun float_sign :: "pyfloat \<Rightarrow> rat" where
  "float_sign (Finite a) = sgn a"
| "float_sign PosInf = 1"
| "float_sign NegInf = - 1"
| "float_sign NaN = 0"

text \<open>The infinity of a given sign; \<open>inf * 0\<close> is NaN.\<close>

definition signed_inf :: "rat \<Rightarrow> pyfloat" where
  "signed_inf s = (if s = 0 then NaN else if 0 < s then PosInf else NegInf)"

fun float_mul :: "pyfloat \<Rightarrow> pyfloat \<Rightarrow> pyfloat" where
  "float_mul (Finite a) (Finite b) = round_float (a * b)"
| "float_mul NaN y = NaN"
| "float_mul x NaN = NaN"
| "float_mul x y = signed_inf (float_sign x * float_sign y)"

fun float_add :: "pyfloat \<Rightarrow> pyfloat \<Rightarrow> pyfloat" where
  "float_add (Finite a) (Finite b) = round_float (a + b)"
| "float_add NaN y = NaN"
| "float_add x NaN = NaN"
| "float_add PosInf NegInf = NaN"
| "float_add NegInf PosInf = NaN"
| "float_add PosInf y = PosInf"
| "float_add x PosInf = PosInf"
| "float_add NegInf y = NegInf"
| "float_add x NegInf = NegInf"

text \<open>Float division checks the divisor first: a zero divisor raises ZeroDivisionError
  whatever the dividend.\<close>

fun float_div :: "pyfloat \<Rightarrow> pyfloat \<Rightarrow> error + pyfloat" where
  "float_div x (Finite b) =
     (if b = 0 then Inl ZeroDivisionError
      else (case x of
              Finite a \<Rightarrow> Inr (round_float (a / b))
            | NaN \<Rightarrow> Inr NaN
            | _ \<Rightarrow> Inr (signed_inf (float_sign x * sgn b))))"
| "float_div NaN y = Inr NaN"
| "float_div x NaN = Inr NaN"
| "float_div (Finite a) y = Inr (Finite 0)"
| "float_div x y = Inr NaN"

text \<open>\<open>x * n\<close>, \<open>x + n\<close> and \<open>x / n\<close> for a number \<open>x\<close> and an int \<open>n\<close>.\<close>

definition py_mul :: "pynum \<Rightarrow> int \<Rightarrow> error + pynum" where
  "py_mul x n =
     (case x of
        PyInt a \<Rightarrow> Inr (PyInt (a * n))
      | PyFloat f \<Rightarrow>
          (case int_to_float n of Inl e \<Rightarrow> Inl e | Inr g \<Rightarrow> Inr (PyFloat (float_mul f g))))"

definition py_add :: "pynum \<Rightarrow> int \<Rightarrow> error + pynum" where
  "py_add x n =
     (case x of
        PyInt a \<Rightarrow> Inr (PyInt (a + n))
      | PyFloat f \<Rightarrow>
          (case int_to_float n of Inl e \<Rightarrow> Inl e | Inr g \<Rightarrow> Inr (PyFloat (float_add f g))))"

definition py_truediv :: "pynum \<Rightarrow> int \<Rightarrow> error + pynum" where
  "py_truediv x n =
     (case x of
        PyInt a \<Rightarrow>
          if n = 0 then Inl ZeroDivisionError
          else if float_limit \<le> \<bar>of_int a / of_int n\<bar> then Inl OverflowError
          else Inr (PyFloat (Finite (of_int a / of_int n)))
      | PyFloat f \<Rightarrow>
          (case int_to_float n of
             Inl e \<Rightarrow> Inl e
           | Inr g \<Rightarrow> (case float_div f g of Inl e \<Rightarrow> Inl e | Inr q \<Rightarrow> Inr (PyFloat q))))"

section \<open>Profile and statistics manager (core/profile_manager.py)\<close>

record achievement =
  unlocked_date :: string
  ach_game_id :: "string option"
  ach_description :: string

record profile =
  name :: string
  created_date :: string
  last_active :: string
  preferences :: pydict
  achievements :: "(string \<times> achievement) list"
  favorites :: "string list"
  blocked_games :: "string list"
  parental_settings :: pydict

text \<open>
  The per-game record. \<open>average_score\<close> is read with \<open>.get("average_score", 0)\<close>, so the
  key may be absent (\<open>None\<close>); it is the int 0 of a new record until the first update
  stores the float of a true division.
\<close>

record game_stat =
  playtime :: int
  sessions :: int
  high_score :: int
  average_score :: "pynum option"
  last_played :: "string option"
  completion_rate :: rat

record daily =
  daily_playtime :: int
  daily_games :: "string list"
  daily_scores :: "(string \<times> int list) list"

text \<open>
  A weekly or monthly bucket. \<open>games\<close> is rebuilt as \<open>list(set(...) | {game_id})\<close>, a
  list whose order Python does not fix: it is modelled by the set of its elements. The
  keys \<open>games\<close> and \<open>sessions\<close> are read with \<open>.get\<close> and a default.
\<close>

record period =
  period_playtime :: int
  period_games :: "string set option"
  period_sessions :: "int option"

record stats =
  total_playtime :: int
  games_played :: int
  favorite_category :: pyval
  achievement_count :: int
  high_scores :: "(string \<times> int) list"
  game_stats :: "(string \<times> game_stat) list"
  daily_stats :: "(string \<times> daily) list"
  weekly_stats :: "(string \<times> period) list"
  monthly_stats :: "(string \<times> period) list"

text \<open>
  The manager object: the two documents in memory and the two files on disk
  (\<open>None\<close> while a file has not been written).
\<close>

record manager =
  profile_data :: profile
  stats_data :: stats
  profile_file :: "profile option"
  stats_file :: "stats option"

text \<open>
  A reading of \<open>datetime.now()\<close> in \<open>_update_time_based_stats\<close>, with the three keys
  \<open>strftime\<close> derives from it.
\<close>

record clock =
  today :: string
  this_week :: string
  this_month :: string

definition default_profile :: "string \<Rightarrow> string \<Rightarrow> profile" where
  "default_profile profile_name now =
     \<lparr> name = profile_name, created_date = now, last_active = now,
       preferences =
         [(''theme'', PStr ''retro''), (''layout'', PStr ''grid''),
          (''sound_enabled'', PBool True), (''music_enabled'', PBool True),
          (''volume'', PNum (7 / 10)), (''auto_save'', PBool True),
          (''show_fps'', PBool False), (''difficulty_preference'', PStr ''medium'')],
       achievements = [], favorites = [], blocked_games = [],
       parental_settings =
         [(''enabled'', PBool False), (''time_limit_minutes'', PNum 0),
          (''allowed_categories'', PList [])] \<rparr>"

definition default_stats :: stats where
  "default_stats =
     \<lparr> total_playtime = 0, games_played = 0, favorite_category = PStr ''arcade'',
       achievement_count = 0, high_scores = [], game_stats = [], daily_stats = [],
       weekly_stats = [], monthly_stats = [] \<rparr>"

definition default_game_stat :: game_stat where
  "default_game_stat =
     \<lparr> playtime = 0, sessions = 0, high_score = 0, average_score = Some (PyInt 0),
       last_played = None, completion_rate = 0 \<rparr>"

text \<open>\<open>_save_profile\<close> stamps \<open>last_active\<close> and writes the profile; \<open>_save_stats\<close> writes the
  statistics. Writing a file (\<open>open\<close> and \<open>json.dump\<close>) is taken to succeed: the file
  system and the limits of the JSON encoder are not part of the model.\<close>

definition save_profile :: "string \<Rightarrow> manager \<Rightarrow> manager" where
  "save_profile now m =
     (let d = (profile_data m)\<lparr>last_active := now\<rparr>
      in m\<lparr>profile_data := d, profile_file := Some d\<rparr>)"

definition save_stats :: "manager \<Rightarrow> manager" where
  "save_stats m = m\<lparr>stats_file := Some (stats_data m)\<rparr>"

text \<open>
  A manager of a first run: both documents are the defaults, each already saved
  (\<open>_load_profile\<close> and \<open>_load_stats\<close> save the default they create).
\<close>

definition new_manager :: "string \<Rightarrow> string \<Rightarrow> manager" where
  "new_manager profile_name now =
     \<lparr> profile_data = default_profile profile_name now, stats_data = default_stats,
       profile_file = Some (default_profile profile_name now),
       stats_file = Some default_stats \<rparr>"

subsection \<open>Favorites and achievements\<close>

definition add_favorite :: "string \<Rightarrow> string \<Rightarrow> manager \<Rightarrow> manager" where
  "add_favorite now gid m =
     (if gid \<notin> set (favorites (profile_data m))
      then save_profile now
             (m\<lparr>profile_data :=
                  (profile_data m)\<lparr>favorites := favorites (profile_data m) @ [gid]\<rparr>\<rparr>)
      else m)"

definition remove_favorite :: "string \<Rightarrow> string \<Rightarrow> manager \<Rightarrow> manager" where
  "remove_favorite now gid m =
     (if gid \<in> set (favorites (profile_data m))
      then save_profile now
             (m\<lparr>profile_data :=
                  (profile_data m)\<lparr>favorites := remove1 gid (favorites (profile_data m))\<rparr>\<rparr>)
      else m)"

definition is_favorite :: "string \<Rightarrow> manager \<Rightarrow> bool" where
  "is_favorite gid m = (gid \<in> set (favorites (profile_data m)))"

text \<open>
  \<open>unlock_achievement\<close> reads the clock twice on a fresh unlock: \<open>t_unlock\<close> for
  \<open>unlocked_date\<close>, \<open>t_save\<close> in \<open>_save_profile\<close>. The result is the returned flag and
  the manager afterwards.
\<close>

definition unlock_achievement ::
  "string \<Rightarrow> string \<Rightarrow> string \<Rightarrow> string option \<Rightarrow> string \<Rightarrow> manager \<Rightarrow> bool \<times> manager" where
  "unlock_achievement t_unlock t_save achievement_id gid descr m =
     (if map_of (achievements (profile_data m)) achievement_id = None
      then
        (let p = (profile_data m)
               \<lparr>achievements :=
                  AList.update achievement_id
                    \<lparr>unlocked_date = t_unlock, ach_game_id = gid, ach_description = descr\<rparr>
                    (achievements (profile_data m))\<rparr>;
             s = (stats_data m)\<lparr>achievement_count := achievement_count (stats_data m) + 1\<rparr>
         in (True, save_stats (save_profile t_save (m\<lparr>profile_data := p, stats_data := s\<rparr>))))
      else (False, m))"

definition is_achievement_unlocked :: "string \<Rightarrow> manager \<Rightarrow> bool" where
  "is_achievement_unlocked achievement_id m =
     (map_of (achievements (profile_data m)) achievement_id \<noteq> None)"

subsection \<open>Recording a game session\<close>

text \<open>
  \<open>_update_time_based_stats\<close>: the daily bucket gets the playtime, the game id (once)
  and the score, appended to the per-game list of the day whatever its value; the weekly
  and monthly buckets get the playtime, the game id and one more session.
\<close>

definition update_period :: "string \<Rightarrow> string \<Rightarrow> int \<Rightarrow> (string \<times> period) list \<Rightarrow> (string \<times> period) list" where
  "update_period key gid duration buckets =
     (let w0 = (case map_of buckets key of
                  None \<Rightarrow> \<lparr>period_playtime = 0, period_games = Some {}, period_sessions = Some 0\<rparr>
                | Some w \<Rightarrow> w);
          w1 = w0\<lparr>period_playtime := period_playtime w0 + duration\<rparr>;
          w2 = w1\<lparr>period_games :=
                    Some (insert gid (case period_games w1 of None \<Rightarrow> {} | Some gs \<Rightarrow> gs))\<rparr>;
          w3 = w2\<lparr>period_sessions :=
                    Some ((case period_sessions w2 of None \<Rightarrow> 0 | Some n \<Rightarrow> n) + 1)\<rparr>
      in AList.update key w3 buckets)"

definition update_daily :: "string \<Rightarrow> string \<Rightarrow> int \<Rightarrow> int \<Rightarrow> (string \<times> daily) list \<Rightarrow> (string \<times> daily) list" where
  "update_daily key gid duration score buckets =
     (let d0 = (case map_of buckets key of
                  None \<Rightarrow> \<lparr>daily_playtime = 0, daily_games = [], daily_scores = []\<rparr>
                | Some d \<Rightarrow> d);
          d1 = d0\<lparr>daily_playtime := daily_playtime d0 + duration\<rparr>;
          d2 = (if gid \<notin> set (daily_games d1)
                then d1\<lparr>daily_games := daily_games d1 @ [gid]\<rparr> else d1);
          old = (case map_of (daily_scores d2) gid of None \<Rightarrow> [] | Some l \<Rightarrow> l);
          d3 = d2\<lparr>daily_scores := AList.update gid (old @ [score]) (daily_scores d2)\<rparr>
      in AList.update key d3 buckets)"

definition update_time_based_stats :: "clock \<Rightarrow> string \<Rightarrow> int \<Rightarrow> int \<Rightarrow> stats \<Rightarrow> stats" where
  "update_time_based_stats now gid duration score s =
     s\<lparr>daily_stats := update_daily (today now) gid duration score (daily_stats s),
       weekly_stats := update_period (this_week now) gid duration (weekly_stats s),
       monthly_stats := update_period (this_month now) gid duration (monthly_stats s)\<rparr>"

text \<open>
  The statement that updates the average:
  \<open>((current_avg * (sessions - 1)) + score) / sessions\<close>, evaluated left to right. With
  an int \<open>current_avg\<close> the sum is an int and the division is the true division of
  ints; with a float \<open>current_avg\<close> each int operand is converted first.
\<close>

definition new_average :: "pynum \<Rightarrow> int \<Rightarrow> int \<Rightarrow> error + pynum" where
  "new_average current_avg n score =
     (case py_mul current_avg (n - 1) of
        Inl e \<Rightarrow> Inl e
      | Inr p \<Rightarrow> (case py_add p score of Inl e \<Rightarrow> Inl e | Inr q \<Rightarrow> py_truediv q n))"

text \<open>
  \<open>record_game_session\<close>. \<open>t\<close> is the clock reading stored in \<open>last_played\<close>, \<open>now\<close> the
  one taken in \<open>_update_time_based_stats\<close>. The update of the average can raise
  (ZeroDivisionError when a loaded record makes the session count zero, OverflowError
  when a number is beyond the float range); the exception leaves the function at that
  statement, so the result is then the exception together with the manager as the
  statements before it left it: totals, session count and high score updated in memory,
  no average, no daily, weekly or monthly entry, nothing written.
\<close>

definition record_game_session ::
  "string \<Rightarrow> clock \<Rightarrow> string \<Rightarrow> int \<Rightarrow> int \<Rightarrow> manager \<Rightarrow> (error \<times> manager) + manager" where
  "record_game_session t now gid duration_seconds score m =
     (let s0 = stats_data m;
          s1 = s0\<lparr>total_playtime := total_playtime s0 + duration_seconds,
                  games_played := games_played s0 + 1\<rparr>;
          g0 = (case map_of (game_stats s1) gid of
                  None \<Rightarrow> default_game_stat | Some g \<Rightarrow> g);
          g1 = g0\<lparr>playtime := playtime g0 + duration_seconds,
                  sessions := sessions g0 + 1,
                  last_played := Some t\<rparr>;
          g2 = (if score > high_score g1 then g1\<lparr>high_score := score\<rparr> else g1);
          hs = (if score > high_score g1
                then AList.update gid score (high_scores s1) else high_scores s1);
          current_avg = (case average_score g2 of None \<Rightarrow> PyInt 0 | Some a \<Rightarrow> a)
      in case (if score > 0
               then (case new_average current_avg (sessions g2) score of
                       Inl e \<Rightarrow> Inl e
                     | Inr a \<Rightarrow> Inr (g2\<lparr>average_score := Some a\<rparr>))
               else Inr g2) of
           Inl e \<Rightarrow>
             Inl (e, m\<lparr>stats_data :=
                        s1\<lparr>game_stats := AList.update gid g2 (game_stats s1),
                           high_scores := hs\<rparr>\<rparr>)
         | Inr g3 \<Rightarrow>
             (let s2 = s1\<lparr>game_stats := AList.update gid g3 (game_stats s1), high_scores := hs\<rparr>
              in Inr (save_stats
                        (m\<lparr>stats_data :=
                             update_time_based_stats now gid duration_seconds score s2\<rparr>))))"

definition get_game_stats :: "string \<Rightarrow> manager \<Rightarrow> game_stat" where
  "get_game_stats gid m =
     (case map_of (game_stats (stats_data m)) gid of
        None \<Rightarrow> default_game_stat | Some g \<Rightarrow> g)"

text \<open>
  A sequence of calls, each with its two clock readings, its game id, duration and
  score; an exception ends the sequence, with the manager as the raising call left it.
\<close>

type_synonym call = "string \<times> clock \<times> string \<times> int \<times> int"

fun run_sessions :: "call list \<Rightarrow> manager \<Rightarrow> (error \<times> manager) + manager" where
  "run_sessions [] m = Inr m"
| "run_sessions ((t, now, gid, duration_seconds, score) # cs) m =
     (case record_game_session t now gid duration_seconds score m of
        Inl e \<Rightarrow> Inl e
      | Inr m' \<Rightarrow> run_sessions cs m')"

text \<open>The scores passed for one game, in call order.\<close>

fun scores_of :: "string \<Rightarrow> call list \<Rightarrow> int list" where
  "scores_of g [] = []"
| "scores_of g ((t, now, gid, duration_seconds, score) # cs) =
     (if gid = g then score # scores_of g cs else scores_of g cs)"


text \<open>
  What the per-game records of a document written by this code satisfy: no session
  count is negative, and an \<open>average_score\<close> that is still an int is the 0 of a new
  record. \<open>bound\<close> is a bound on the session counts.
\<close>

definition record_ok :: "int \<Rightarrow> game_stat \<Rightarrow> bool" where
  "record_ok bound r =
     (0 \<le> sessions r \<and> sessions r \<le> bound \<and>
      (case average_score r of Some (PyInt a) \<Rightarrow> a = 0 | _ \<Rightarrow> True))"

definition stats_ok :: "int \<Rightarrow> manager \<Rightarrow> bool" where
  "stats_ok bound m = list_all (\<lambda>(k, r). record_ok bound r) (game_stats (stats_data m))"

text \<open>
  The record holds the mean of its sessions, whose scores sum to \<open>points\<close>: a record without
  sessions holds the int 0, a record with sessions the float of the quotient.
\<close>

definition mean_held :: "int \<Rightarrow> game_stat \<Rightarrow> bool" where
  "mean_held points r =
     (if sessions r = 0 then points = 0 \<and> average_score r = Some (PyInt 0)
      else 0 < sessions r \<and> 0 \<le> points \<and>
           average_score r = Some (PyFloat (Finite (of_int points / of_int (sessions r)))))"

text \<open>The scores of a sequence of calls stay below the float range.\<close>

fun scores_in_range :: "call list \<Rightarrow> bool" where
  "scores_in_range [] = True"
| "scores_in_range ((t, now, gid, duration_seconds, score) # cs) =
     (of_int score < float_limit \<and> scores_in_range cs)"

subsection \<open>Recommendations\<close>

text \<open>\<open>next((g for g in all_games if g["id"] == game_id), None)\<close>: a game without \<open>id\<close>
  met before a match raises KeyError.\<close>

fun find_game :: "string \<Rightarrow> pydict list \<Rightarrow> error + pydict option" where
  "find_game gid [] = Inr None"
| "find_game gid (g # gs) =
     (case map_of g ''id'' of
        None \<Rightarrow> Inl KeyError
      | Some v \<Rightarrow> if v = PStr gid then Inr (Some g) else find_game gid gs)"

text \<open>
  The loop that sums the playtime per category. A category is a dict key: the dict is
  keyed by the representative \<open>py_key\<close> gives it, and holds with each key the object
  that was inserted first (the key object a Python dict keeps) and the sum. A played
  game that is not in the catalog is skipped.
\<close>

fun played_categories ::
  "(string \<times> game_stat) list \<Rightarrow> pydict list \<Rightarrow> (pyval \<times> pyval \<times> int) list
    \<Rightarrow> error + (pyval \<times> pyval \<times> int) list" where
  "played_categories [] all_games acc = Inr acc"
| "played_categories ((gid, st) # rest) all_games acc =
     (case find_game gid all_games of
        Inl e \<Rightarrow> Inl e
      | Inr None \<Rightarrow> played_categories rest all_games acc
      | Inr (Some game_info) \<Rightarrow>
          if game_info = [] then played_categories rest all_games acc
          else
            (let category = (case map_of game_info ''category'' of
                               None \<Rightarrow> PStr ''arcade'' | Some c \<Rightarrow> c)
             in case py_key category of
                  Inl e \<Rightarrow> Inl e
                | Inr k \<Rightarrow>
                    played_categories rest all_games
                      (AList.update k
                         (case map_of acc k of
                            None \<Rightarrow> (category, 0 + playtime st)
                          | Some (key_object, n) \<Rightarrow> (key_object, n + playtime st)) acc)))"

text \<open>\<open>max(d, key=d.get)\<close> on a non-empty dict: the first key, in insertion order, whose
  value is maximal.\<close>

fun max_by_value :: "'a \<times> int \<Rightarrow> ('a \<times> int) list \<Rightarrow> 'a" where
  "max_by_value (k, v) [] = k"
| "max_by_value (k, v) ((k', v') # rest) =
     (if v' > v then max_by_value (k', v') rest else max_by_value (k, v) rest)"

fun unplayed_games :: "string list \<Rightarrow> pydict list \<Rightarrow> error + pydict list" where
  "unplayed_games played [] = Inr []"
| "unplayed_games played (g # gs) =
     (case map_of g ''id'' of
        None \<Rightarrow> Inl KeyError
      | Some v \<Rightarrow>
          (case py_key v of
             Inl e \<Rightarrow> Inl e
           | Inr k \<Rightarrow>
               (case unplayed_games played gs of
                  Inl e \<Rightarrow> Inl e
                | Inr r \<Rightarrow> Inr (if k \<notin> set (map PStr played) then g # r else r))))"

definition has_category :: "pyval \<Rightarrow> pydict \<Rightarrow> bool" where
  "has_category fav g =
     (py_key (case map_of g ''category'' of None \<Rightarrow> PNone | Some c \<Rightarrow> c) = Inr fav)"

text \<open>
  The favorite category: the key of maximal sum (\<open>"arcade"\<close> when nothing was counted).
  \<open>find_favorite_category\<close> is its representative, which decides every comparison with
  it; \<open>favorite_key_object\<close> is the object itself, which the call stores.
\<close>

definition by_value :: "pyval \<times> pyval \<times> int \<Rightarrow> (pyval \<times> pyval) \<times> int" where
  "by_value c = ((fst c, fst (snd c)), snd (snd c))"

definition find_favorite_category :: "(pyval \<times> pyval \<times> int) list \<Rightarrow> pyval" where
  "find_favorite_category cats =
     (case cats of
        [] \<Rightarrow> PStr ''arcade''
      | c # cs \<Rightarrow> fst (max_by_value (by_value c) (map by_value cs)))"

definition favorite_key_object :: "(pyval \<times> pyval \<times> int) list \<Rightarrow> pyval" where
  "favorite_key_object cats =
     (case cats of
        [] \<Rightarrow> PStr ''arcade''
      | c # cs \<Rightarrow> snd (max_by_value (by_value c) (map by_value cs)))"

definition get_recommended_games ::
  "pydict list \<Rightarrow> int \<Rightarrow> manager \<Rightarrow> error + (pydict list \<times> manager)" where
  "get_recommended_games all_games limit m =
     (if game_stats (stats_data m) = [] then Inr (py_take limit all_games, m)
      else
        (case played_categories (game_stats (stats_data m)) all_games [] of
           Inl e \<Rightarrow> Inl e
         | Inr cats \<Rightarrow>
             (let fav = find_favorite_category cats;
                  m1 = (if cats \<noteq> []
                        then save_stats
                               (m\<lparr>stats_data :=
                                    (stats_data m)\<lparr>favorite_category := favorite_key_object cats\<rparr>\<rparr>)
                        else m)
              in case unplayed_games (map fst (game_stats (stats_data m))) all_games of
                   Inl e \<Rightarrow> Inl e
                 | Inr unplayed \<Rightarrow>
                     (let category_games = filter (has_category fav) unplayed;
                          other_games = filter (\<lambda>g. \<not> has_category fav g) unplayed;
                          recommended = py_take limit category_games;
                          recommended2 =
                            (if int (length recommended) < limit
                             then recommended
                                  @ py_take (limit - int (length recommended)) other_games
                             else recommended)
                      in Inr (py_take limit recommended2, m1)))))"

text \<open>A catalog entry the recommendation code can read: it has an \<open>id\<close>, and its \<open>id\<close> and
  \<open>category\<close> are hashable (not a list or a dict).\<close>

definition readable_game :: "pydict \<Rightarrow> bool" where
  "readable_game g =
     ((case map_of g ''id'' of None \<Rightarrow> False | Some v \<Rightarrow> \<not> isl (py_key v)) \<and>
      \<not> isl (py_key (case map_of g ''category'' of None \<Rightarrow> PStr ''arcade'' | Some c \<Rightarrow> c)))"

section \<open>Game discovery (core/game_discovery.py)\<close>

subsection \<open>Merging discovered games into the catalog\<close>

text \<open>
  \<open>for x in v\<close>: a list gives its elements, a string its characters, a dict its keys;
  anything else is not iterable (TypeError).
\<close>

fun py_iter :: "pyval \<Rightarrow> error + pyval list" where
  "py_iter (PList xs) = Inr xs"
| "py_iter (PStr s) = Inr (map (\<lambda>c. PStr [c]) s)"
| "py_iter (PDict d) = Inr (map (\<lambda>kv. PStr (fst kv)) d)"
| "py_iter v = Inl TypeError"

text \<open>\<open>d.update(e)\<close>: the items of \<open>e\<close> are written into \<open>d\<close> in order.\<close>

definition dict_update :: "pydict \<Rightarrow> pydict \<Rightarrow> pydict" where
  "dict_update d e = fold (\<lambda>kv. AList.update (fst kv) (snd kv)) e d"

text \<open>The fields a rediscovery never overwrites.\<close>

definition user_keys :: "string list" where
  "user_keys = [''playtime'', ''high_score'', ''last_played'', ''completion_rate'']"

text \<open>\<open>game.get('file', '')\<close>.\<close>

definition entry_file :: "pydict \<Rightarrow> pyval" where
  "entry_file game = (case map_of game ''file'' of None \<Rightarrow> PStr [] | Some f \<Rightarrow> f)"

text \<open>
  The lookup of the existing games by filename. An element of \<open>games\<close> that is not a
  dict has no \<open>get\<close> (AttributeError); a later entry with the same filename replaces an
  earlier one.
\<close>

fun existing_lookup :: "pyval list \<Rightarrow> (pyval \<times> pydict) list \<Rightarrow> error + (pyval \<times> pydict) list" where
  "existing_lookup [] existing_games = Inr existing_games"
| "existing_lookup (PDict game # rest) existing_games =
     (if truthy (entry_file game)
      then (case py_key (entry_file game) of
              Inl e \<Rightarrow> Inl e
            | Inr k \<Rightarrow> existing_lookup rest (AList.update k game existing_games))
      else existing_lookup rest existing_games)"
| "existing_lookup (v # rest) existing_games = Inl AttributeError"

text \<open>
  The merge loop over the discovered games. \<open>discovered['file']\<close> and, for an existing
  entry without \<open>id\<close>, \<open>discovered['id']\<close> raise KeyError when the key is missing.
\<close>

fun merge_games :: "(pyval \<times> pydict) list \<Rightarrow> pydict list \<Rightarrow> error + pydict list" where
  "merge_games existing_games [] = Inr []"
| "merge_games existing_games (discovered # rest) =
     (case map_of discovered ''file'' of
        None \<Rightarrow> Inl KeyError
      | Some filename \<Rightarrow>
          (case py_key filename of
             Inl e \<Rightarrow> Inl e
           | Inr k \<Rightarrow>
               (case map_of existing_games k of
                  Some existing0 \<Rightarrow>
                    (case (if map_of existing0 ''id'' = None
                           then (case map_of discovered ''id'' of
                                   None \<Rightarrow> Inl KeyError
                                 | Some i \<Rightarrow> Inr (AList.update ''id'' i existing0))
                           else Inr existing0) of
                       Inl e \<Rightarrow> Inl e
                     | Inr existing \<Rightarrow>
                         (case merge_games existing_games rest of
                            Inl e \<Rightarrow> Inl e
                          | Inr merged_games \<Rightarrow>
                              Inr (dict_update existing
                                     (filter (\<lambda>kv. fst kv \<notin> set user_keys) discovered)
                                   # merged_games)))
                | None \<Rightarrow>
                    (case merge_games existing_games rest of
                       Inl e \<Rightarrow> Inl e
                     | Inr merged_games \<Rightarrow> Inr (discovered # merged_games)))))"

definition default_hub_settings :: pydict where
  "default_hub_settings =
     [(''theme'', PStr ''retro''), (''layout'', PStr ''grid''), (''auto_update'', PBool True),
      (''analytics'', PBool False), (''cloud_sync'', PBool False),
      (''parental_controls'', PBool False)]"

text \<open>
  \<open>merge_with_config\<close>: \<open>config_file\<close> is the JSON value in the configuration file
  (\<open>None\<close> when the file does not exist), \<open>discovered_games\<close> the list the last scan
  left in the object.
\<close>

definition merge_with_config :: "pyval option \<Rightarrow> pydict list \<Rightarrow> error + pydict" where
  "merge_with_config config_file discovered_games =
     (case (case config_file of None \<Rightarrow> PDict [] | Some c \<Rightarrow> c) of
        PDict existing_config \<Rightarrow>
          (case py_iter (case map_of existing_config ''games'' of
                           None \<Rightarrow> PList [] | Some g \<Rightarrow> g) of
             Inl e \<Rightarrow> Inl e
           | Inr games \<Rightarrow>
               (case existing_lookup games [] of
                  Inl e \<Rightarrow> Inl e
                | Inr existing_games \<Rightarrow>
                    (case merge_games existing_games discovered_games of
                       Inl e \<Rightarrow> Inl e
                     | Inr merged_games \<Rightarrow>
                         (let final_config =
                                AList.update ''games'' (PList (map PDict merged_games))
                                  existing_config
                          in Inr (if map_of final_config ''hub_settings'' = None
                                  then AList.update ''hub_settings'' (PDict default_hub_settings)
                                         final_config
                                  else final_config)))))
      | v \<Rightarrow> Inl AttributeError)"

text \<open>
  The games of a catalog document as the merge reads them, and the existing entry a
  discovered game is matched with: the last entry of the document with a non-empty
  filename equal to the discovered one.
\<close>

definition config_games :: "pyval option \<Rightarrow> pyval list" where
  "config_games config_file =
     (case config_file of
        Some (PDict existing_config) \<Rightarrow>
          (case map_of existing_config ''games'' of
             None \<Rightarrow> []
           | Some g \<Rightarrow> (case py_iter g of Inl e \<Rightarrow> [] | Inr games \<Rightarrow> games))
      | _ \<Rightarrow> [])"

fun dicts_of :: "pyval list \<Rightarrow> pydict list" where
  "dicts_of [] = []"
| "dicts_of (PDict d # rest) = d # dicts_of rest"
| "dicts_of (v # rest) = dicts_of rest"

definition matched_entry :: "pyval option \<Rightarrow> pydict \<Rightarrow> pydict option" where
  "matched_entry config_file discovered =
     find (\<lambda>game. truthy (entry_file game) \<and>
                   map_of discovered ''file'' \<noteq> None \<and>
                   py_key (entry_file game) = py_key (entry_file discovered))
       (rev (dicts_of (config_games config_file)))"

text \<open>
  Documents the merge reads without an exception: the catalog is absent or an object
  whose \<open>games\<close>, if present, is a list of objects with a string (or no) \<open>file\<close>; a
  discovered game has a string \<open>file\<close> and an \<open>id\<close>; a dict holds each key once.
\<close>

definition catalog_entry_ok :: "pyval \<Rightarrow> bool" where
  "catalog_entry_ok v =
     (case v of
        PDict d \<Rightarrow> (case map_of d ''file'' of None \<Rightarrow> True | Some (PStr s) \<Rightarrow> True | Some w \<Rightarrow> False)
      | w \<Rightarrow> False)"

definition catalog_ok :: "pyval option \<Rightarrow> bool" where
  "catalog_ok config_file =
     (case config_file of
        None \<Rightarrow> True
      | Some (PDict c) \<Rightarrow>
          (case map_of c ''games'' of
             None \<Rightarrow> True
           | Some (PList gs) \<Rightarrow> list_all catalog_entry_ok gs
           | Some w \<Rightarrow> False)
      | Some w \<Rightarrow> False)"

definition discovered_ok :: "pydict \<Rightarrow> bool" where
  "discovered_ok d =
     ((case map_of d ''file'' of Some (PStr s) \<Rightarrow> True | w \<Rightarrow> False) \<and>
      map_of d ''id'' \<noteq> None)"

text \<open>What the merge loop makes of one discovered game.\<close>

definition merged_of :: "(pyval \<times> pydict) list \<Rightarrow> pydict \<Rightarrow> pydict \<Rightarrow> bool" where
  "merged_of eg d g =
     (\<exists>f k. map_of d ''file'' = Some f \<and> py_key f = Inr k \<and>
        (case map_of eg k of
           None \<Rightarrow> g = d
         | Some ex0 \<Rightarrow>
             (\<exists>ex. g = dict_update ex (filter (\<lambda>kv. fst kv \<notin> set user_keys) d) \<and>
                (\<forall>key. key \<noteq> ''id'' \<longrightarrow> map_of ex key = map_of ex0 key))))"

subsection \<open>Python string operations\<close>

text \<open>
  A Python string is a sequence of Unicode characters. The extractor is modelled on
  texts over any type \<open>'c\<close> of characters. What \<open>str\<close> does by comparing characters (the
  split at a separator, \<open>startswith\<close>, \<open>endswith\<close>, \<open>in\<close>, \<open>find\<close>, slices, \<open>replace\<close>, the
  strip of given characters) is defined on lists. What it does by consulting the Unicode
  character database (\<open>strip()\<close> and \<open>split()\<close>, which look for whitespace, \<open>lower()\<close> and
  \<open>title()\<close>) is a parameter of the model, together with the character \<open>chr ops c\<close> that
  an ASCII character \<open>c\<close> of a literal of the program denotes.
\<close>

record 'c str_ops =
  chr :: "char \<Rightarrow> 'c"
  strip :: "'c list \<Rightarrow> 'c list"
  lower :: "'c list \<Rightarrow> 'c list"
  title :: "'c list \<Rightarrow> 'c list"
  split_whitespace :: "'c list \<Rightarrow> 'c list list"

text \<open>A string literal of the program.\<close>

definition lit :: "'c str_ops \<Rightarrow> string \<Rightarrow> 'c list" where
  "lit ops s = map (chr ops) s"

definition newline :: char where
  "newline = CHR 0x0A"

text \<open>The two docstring delimiters: three double quotes, three single quotes.\<close>

definition dquotes3 :: string where
  "dquotes3 = [CHR 0x22, CHR 0x22, CHR 0x22]"

definition squotes3 :: string where
  "squotes3 = [CHR 0x27, CHR 0x27, CHR 0x27]"

text \<open>\<open>s.split(c)\<close> for a one-character separator: never empty.\<close>

fun split_on :: "'a \<Rightarrow> 'a list \<Rightarrow> 'a list list" where
  "split_on c [] = [[]]"
| "split_on c (x # xs) =
     (if x = c then [] # split_on c xs
      else (case split_on c xs of w # ws \<Rightarrow> (x # w) # ws | [] \<Rightarrow> [[x]]))"

text \<open>\<open>s.strip(chars)\<close>.\<close>

definition strip_chars :: "'a list \<Rightarrow> 'a list \<Rightarrow> 'a list" where
  "strip_chars chars s =
     rev (dropWhile (\<lambda>c. c \<in> set chars) (rev (dropWhile (\<lambda>c. c \<in> set chars) s)))"

definition startswith :: "'a list \<Rightarrow> 'a list \<Rightarrow> bool" where
  "startswith p s = (take (length p) s = p)"

definition endswith :: "'a list \<Rightarrow> 'a list \<Rightarrow> bool" where
  "endswith p s = (length p \<le> length s \<and> drop (length s - length p) s = p)"

text \<open>\<open>sub in s\<close>.\<close>

fun py_contains :: "'a list \<Rightarrow> 'a list \<Rightarrow> bool" where
  "py_contains sub [] = (sub = [])"
| "py_contains sub (x # xs) = (startswith sub (x # xs) \<or> py_contains sub xs)"

text \<open>\<open>s[s.find(sub):]\<close> when \<open>sub in s\<close>: the text from the first occurrence on.\<close>

fun from_first :: "'a list \<Rightarrow> 'a list \<Rightarrow> 'a list" where
  "from_first sub [] = []"
| "from_first sub (x # xs) = (if startswith sub (x # xs) then x # xs else from_first sub xs)"

text \<open>\<open>s.split(c, 1)[1]\<close> when \<open>c in s\<close>: the text after the first \<open>c\<close>.\<close>

definition after_first :: "'a \<Rightarrow> 'a list \<Rightarrow> 'a list" where
  "after_first c s = drop 1 (dropWhile (\<lambda>x. x \<noteq> c) s)"

text \<open>\<open>s.split('\n')[0]\<close>.\<close>

definition first_line :: "'c str_ops \<Rightarrow> 'c list \<Rightarrow> 'c list" where
  "first_line ops s = takeWhile (\<lambda>x. x \<noteq> chr ops newline) s"

definition replace_char :: "'a \<Rightarrow> 'a \<Rightarrow> 'a list \<Rightarrow> 'a list" where
  "replace_char a b s = map (\<lambda>c. if c = a then b else c) s"

text \<open>\<open>sep.join(xs)\<close>.\<close>

fun join :: "'a list \<Rightarrow> 'a list list \<Rightarrow> 'a list" where
  "join sep [] = []"
| "join sep [x] = x"
| "join sep (x # y # ys) = x @ sep @ join sep (y # ys)"

subsection \<open>The string methods on ASCII text\<close>

text \<open>
  What \<open>strip()\<close>, \<open>lower()\<close>, \<open>title()\<close> and \<open>split()\<close> do to a text of ASCII characters,
  where each acts on one character at a time. These are the methods of the examples.
\<close>

text \<open>\<open>c.isspace()\<close>: tab, line feed, vertical tab, form feed, carriage return, the four
  separators 0x1C to 0x1F, and the space.\<close>

definition is_space :: "char \<Rightarrow> bool" where
  "is_space c = (let n = (of_char c :: nat) in (9 \<le> n \<and> n \<le> 13) \<or> (28 \<le> n \<and> n \<le> 32))"

definition ascii_strip :: "string \<Rightarrow> string" where
  "ascii_strip s = rev (dropWhile is_space (rev (dropWhile is_space s)))"

definition is_upper :: "char \<Rightarrow> bool" where
  "is_upper c = (65 \<le> (of_char c :: nat) \<and> (of_char c :: nat) \<le> 90)"

definition is_lower :: "char \<Rightarrow> bool" where
  "is_lower c = (97 \<le> (of_char c :: nat) \<and> (of_char c :: nat) \<le> 122)"

definition lower_char :: "char \<Rightarrow> char" where
  "lower_char c = (if is_upper c then char_of ((of_char c :: nat) + 32) else c)"

definition upper_char :: "char \<Rightarrow> char" where
  "upper_char c = (if is_lower c then char_of ((of_char c :: nat) - 32) else c)"

definition ascii_lower :: "string \<Rightarrow> string" where
  "ascii_lower s = map lower_char s"

text \<open>
  \<open>s.title()\<close>: a letter that follows a letter is put in lower case, any other letter
  in upper case; \<open>prev\<close> tells whether the character before was a letter.
\<close>

fun title_from :: "bool \<Rightarrow> string \<Rightarrow> string" where
  "title_from prev [] = []"
| "title_from prev (c # cs) =
     (if is_lower c then (if prev then c else upper_char c)
      else if is_upper c then (if prev then lower_char c else c)
      else c)
     # title_from (is_lower c \<or> is_upper c) cs"

definition ascii_title :: "string \<Rightarrow> string" where
  "ascii_title s = title_from False s"

text \<open>\<open>s.split()\<close>: the maximal runs of characters that are not whitespace; \<open>cur\<close> is
  the run being read.\<close>

fun words_from :: "string \<Rightarrow> string \<Rightarrow> string list" where
  "words_from cur [] = (if cur = [] then [] else [cur])"
| "words_from cur (c # cs) =
     (if is_space c
      then (if cur = [] then words_from [] cs else cur # words_from [] cs)
      else words_from (cur @ [c]) cs)"

definition ascii_split :: "string \<Rightarrow> string list" where
  "ascii_split s = words_from [] s"

definition ascii_ops :: "char str_ops" where
  "ascii_ops =
     \<lparr> chr = (\<lambda>c. c), strip = ascii_strip, lower = ascii_lower, title = ascii_title,
       split_whitespace = ascii_split \<rparr>"

subsection \<open>The metadata extractor: title\<close>

text \<open>The loop of \<open>_extract_title\<close> over the first 20 lines: the first comment line that
  names a title and has a separator returns.\<close>

fun title_from_comments :: "'c str_ops \<Rightarrow> 'c list list \<Rightarrow> 'c list option" where
  "title_from_comments ops [] = None"
| "title_from_comments ops (l # ls) =
     (let line = strip ops l in
      if startswith (lit ops ''#'') line \<and>
         (py_contains (lit ops ''title'') (lower ops line) \<or>
          py_contains (lit ops ''name'') (lower ops line))
      then (if chr ops CHR '':'' \<in> set line
            then Some (strip ops (after_first (chr ops CHR '':'') line))
            else if chr ops CHR ''-'' \<in> set line
            then Some (strip ops (after_first (chr ops CHR ''-'') line))
            else title_from_comments ops ls)
      else title_from_comments ops ls)"

text \<open>The \<open>TITLE\<close> variable: the text from the first \<open>TITLE\<close>, at most 100 characters and
  up to the end of the line, when it holds an \<open>=\<close>.\<close>

definition variable_line :: "'c str_ops \<Rightarrow> 'c list \<Rightarrow> 'c list" where
  "variable_line ops content = first_line ops (take 100 (from_first (lit ops ''TITLE'') content))"

definition title_from_variable :: "'c str_ops \<Rightarrow> 'c list \<Rightarrow> 'c list option" where
  "title_from_variable ops content =
     (if py_contains (lit ops ''TITLE'') content
      then (let line = variable_line ops content
            in if chr ops CHR ''='' \<in> set line
               then Some (strip_chars [chr ops CHR 0x22, chr ops CHR 0x27]
                            (strip ops (after_first (chr ops CHR ''='') line)))
               else None)
      else None)"

definition extract_title :: "'c str_ops \<Rightarrow> 'c list \<Rightarrow> 'c list \<Rightarrow> 'c list" where
  "extract_title ops content filename =
     (case title_from_comments ops (take 20 (split_on (chr ops newline) content)) of
        Some t \<Rightarrow> t
      | None \<Rightarrow>
          (case title_from_variable ops content of
             Some t \<Rightarrow> t
           | None \<Rightarrow> title ops (replace_char (chr ops CHR ''_'') (chr ops CHR '' '') filename)))"

text \<open>
  The title rule of the specification, for comparison: the comment rule, then the first
  line of the leading documentation block (the text between the first two triple double
  quotes), then the filename in title case.
\<close>

definition spec_doc_first_line :: "'c str_ops \<Rightarrow> 'c list \<Rightarrow> 'c list option" where
  "spec_doc_first_line ops content =
     (if py_contains (lit ops dquotes3) content
      then (let body = drop 3 (from_first (lit ops dquotes3) content)
            in if py_contains (lit ops dquotes3) body
               then Some (strip ops (first_line ops (strip ops (take (length body
                            - length (from_first (lit ops dquotes3) body)) body))))
               else None)
      else None)"

definition spec_extract_title :: "'c str_ops \<Rightarrow> 'c list \<Rightarrow> 'c list \<Rightarrow> 'c list" where
  "spec_extract_title ops content filename =
     (case title_from_comments ops (take 20 (split_on (chr ops newline) content)) of
        Some t \<Rightarrow> t
      | None \<Rightarrow>
          (case spec_doc_first_line ops content of
             Some t \<Rightarrow> t
           | None \<Rightarrow> title ops (replace_char (chr ops CHR ''_'') (chr ops CHR '' '') filename)))"

text \<open>A title comment: a stripped line that starts with \<open>#\<close>, mentions \<open>title\<close> or
  \<open>name\<close> in any case, and has a colon or a dash; and the title it gives.\<close>

definition title_comment :: "'c str_ops \<Rightarrow> 'c list \<Rightarrow> bool" where
  "title_comment ops line =
     (startswith (lit ops ''#'') line \<and>
      (py_contains (lit ops ''title'') (lower ops line) \<or>
       py_contains (lit ops ''name'') (lower ops line)) \<and>
      (chr ops CHR '':'' \<in> set line \<or> chr ops CHR ''-'' \<in> set line))"

definition comment_title :: "'c str_ops \<Rightarrow> 'c list \<Rightarrow> 'c list" where
  "comment_title ops line =
     strip ops (after_first (if chr ops CHR '':'' \<in> set line then chr ops CHR '':''
                             else chr ops CHR ''-'') line)"

subsection \<open>The metadata extractor: description, category, requirements, tags\<close>

text \<open>
  The docstring loop of \<open>_extract_description\<close>: \<open>in_docstring\<close> and the lines
  collected so far are the loop state; the result is \<open>docstring_lines\<close> when the loop
  ends or breaks.
\<close>

fun docstring_loop :: "'c str_ops \<Rightarrow> bool \<Rightarrow> 'c list list \<Rightarrow> 'c list list \<Rightarrow> 'c list list" where
  "docstring_loop ops in_docstring docstring_lines [] = docstring_lines"
| "docstring_loop ops in_docstring docstring_lines (l # ls) =
     (let line = strip ops l in
      if startswith (lit ops dquotes3) line \<or> startswith (lit ops squotes3) line
      then (if in_docstring then docstring_lines
            else (let desc = strip ops (drop 3 line) in
                  docstring_loop ops True
                    (if desc \<noteq> [] \<and> \<not> endswith (lit ops dquotes3) desc \<and>
                        \<not> endswith (lit ops squotes3) desc
                     then docstring_lines @ [desc] else docstring_lines)
                    ls))
      else if in_docstring
      then (if endswith (lit ops dquotes3) line \<or> endswith (lit ops squotes3) line
            then (let desc = strip ops (take (length line - 3) line) in
                  if desc \<noteq> [] then docstring_lines @ [desc] else docstring_lines)
            else docstring_loop ops in_docstring (docstring_lines @ [line]) ls)
      else docstring_loop ops in_docstring docstring_lines ls)"

fun description_from_comments :: "'c str_ops \<Rightarrow> 'c list list \<Rightarrow> 'c list option" where
  "description_from_comments ops [] = None"
| "description_from_comments ops (l # ls) =
     (let line = strip ops l in
      if startswith (lit ops ''#'') line \<and>
         (py_contains (lit ops ''description'') (lower ops line) \<or>
          py_contains (lit ops ''about'') (lower ops line)) \<and>
         chr ops CHR '':'' \<in> set line
      then Some (strip ops (after_first (chr ops CHR '':'') line))
      else description_from_comments ops ls)"

definition extract_description :: "'c str_ops \<Rightarrow> 'c list \<Rightarrow> 'c list" where
  "extract_description ops content =
     (let lines = split_on (chr ops newline) content;
          docstring_lines = docstring_loop ops False [] lines
      in if docstring_lines \<noteq> [] then join (lit ops '' '') docstring_lines
         else (case description_from_comments ops (take 30 lines) of
                 Some d \<Rightarrow> d
               | None \<Rightarrow> lit ops ''A Python game''))"

text \<open>\<open>any(word in text for word in words)\<close>.\<close>

definition any_word :: "'c str_ops \<Rightarrow> string list \<Rightarrow> 'c list \<Rightarrow> bool" where
  "any_word ops ws text = list_ex (\<lambda>w. py_contains (lit ops w) text) ws"

definition detect_category :: "'c str_ops \<Rightarrow> 'c list \<Rightarrow> 'c list" where
  "detect_category ops content =
     (let content_lower = lower ops content in
      if any_word ops [''platform'', ''jump'', ''gravity''] content_lower
      then lit ops ''platformer''
      else if any_word ops [''shoot'', ''bullet'', ''enemy'', ''alien''] content_lower
      then lit ops ''shooter''
      else if any_word ops [''puzzle'', ''solve'', ''brain'', ''logic''] content_lower
      then lit ops ''puzzle''
      else if any_word ops [''race'', ''car'', ''speed'', ''lap''] content_lower
      then lit ops ''racing''
      else if any_word ops [''break'', ''brick'', ''ball'', ''paddle''] content_lower
      then lit ops ''arcade''
      else if any_word ops [''click'', ''increment'', ''upgrade''] content_lower
      then lit ops ''clicker''
      else if any_word ops [''quiz'', ''question'', ''answer''] content_lower
      then lit ops ''quiz''
      else if any_word ops [''board'', ''chess'', ''checkers''] content_lower
      then lit ops ''board''
      else if any_word ops [''type'', ''typing'', ''keyboard''] content_lower
      then lit ops ''typing''
      else if any_word ops [''build'', ''city'', ''simulation''] content_lower
      then lit ops ''simulation''
      else lit ops ''arcade'')"

definition detect_multiplayer :: "'c str_ops \<Rightarrow> 'c list \<Rightarrow> bool" where
  "detect_multiplayer ops content =
     any_word ops
       [''multiplayer'', ''player2'', ''network'', ''socket'', ''client'', ''server'']
       (lower ops content)"

text \<open>
  The requirements are collected in a set and returned as \<open>list(requirements)\<close>, in an
  order Python does not fix: the set is kept as the list of its elements in insertion
  order, and the order the runtime gives them is the parameter \<open>order\<close>.
\<close>

fun requirements_loop :: "'c str_ops \<Rightarrow> 'c list list \<Rightarrow> 'c list list \<Rightarrow> 'c list list" where
  "requirements_loop ops requirements [] = requirements"
| "requirements_loop ops requirements (l # ls) =
     (let line = strip ops l in
      if (startswith (lit ops ''import '') line \<or> startswith (lit ops ''from '') line) \<and>
         py_contains (lit ops ''import'') line
      then (case split_whitespace ops line of
              p0 # p1 # ps \<Rightarrow>
                (let package = takeWhile (\<lambda>c. c \<noteq> chr ops CHR ''.'') p1 in
                 if package \<notin> set (map (lit ops) [''os'', ''sys'', ''random'', ''math'', ''time''])
                 then requirements_loop ops
                        (if package \<in> set requirements then requirements
                         else requirements @ [package]) ls
                 else requirements_loop ops requirements ls)
            | ps \<Rightarrow> requirements_loop ops requirements ls)
      else requirements_loop ops requirements ls)"

definition extract_requirements ::
  "'c str_ops \<Rightarrow> ('c list list \<Rightarrow> 'c list list) \<Rightarrow> 'c list \<Rightarrow> 'c list list" where
  "extract_requirements ops order content =
     order (requirements_loop ops [lit ops ''pygame''] (split_on (chr ops newline) content))"

definition generate_tags :: "'c str_ops \<Rightarrow> 'c list \<Rightarrow> 'c list list" where
  "generate_tags ops content =
     (let content_lower = lower ops content;
          has = (\<lambda>w. py_contains (lit ops w) content_lower);
          t1 = (if has ''retro'' \<or> has ''pixel'' then [lit ops ''retro''] else []);
          t2 = (if has ''neon'' \<or> has ''glow'' then t1 @ [lit ops ''neon''] else t1);
          t3 = (if has ''action'' \<or> has ''fast'' then t2 @ [lit ops ''action''] else t2);
          t4 = (if has ''casual'' \<or> has ''relax'' then t3 @ [lit ops ''casual''] else t3);
          t5 = (if has ''hard'' \<or> has ''difficult''
                then t4 @ [lit ops ''challenging''] else t4);
          t6 = (if has ''pygame'' then t5 @ [lit ops ''pygame''] else t5);
          t7 = (if has ''class'' then t6 @ [lit ops ''oop''] else t6)
      in take 5 t7)"

subsection \<open>Scanning the games folder\<close>

text \<open>\<open>Path.stem\<close>: the name without its last suffix; a dot at the start or at the end
  of the name starts no suffix.\<close>

definition stem :: "string \<Rightarrow> string" where
  "stem file_name =
     (if CHR ''.'' \<notin> set file_name then file_name
      else (let i = length file_name - length (takeWhile (\<lambda>c. c \<noteq> CHR ''.'') (rev file_name)) - 1
            in if 0 < i \<and> i < length file_name - 1 then take i file_name else file_name))"

text \<open>
  What a scan takes from its surroundings. \<open>parses\<close> tells whether \<open>ast.parse\<close> accepts a
  text; \<open>set_order\<close> is the order in which a set of requirements is listed; \<open>printable\<close>
  tells whether standard output can encode the line \<open>Error analyzing <path>: <exception>\<close>
  that is printed for a file (\<open>print\<close> raises UnicodeEncodeError when it cannot); the
  other four are the string methods. In a scan a text is a \<open>string\<close>, and a character
  of a literal is that character.
\<close>

record runtime =
  parses :: "string \<Rightarrow> bool"
  set_order :: "string list \<Rightarrow> string list"
  printable :: "string \<times> string option \<Rightarrow> bool"
  str_strip :: "string \<Rightarrow> string"
  str_lower :: "string \<Rightarrow> string"
  str_title :: "string \<Rightarrow> string"
  str_split :: "string \<Rightarrow> string list"

definition text_ops :: "runtime \<Rightarrow> char str_ops" where
  "text_ops rt =
     \<lparr> chr = (\<lambda>c. c), strip = str_strip rt, lower = str_lower rt, title = str_title rt,
       split_whitespace = str_split rt \<rparr>"

text \<open>The metadata dict \<open>_analyze_game_file\<close> builds for a file that parses.\<close>

definition game_info :: "runtime \<Rightarrow> string \<Rightarrow> string \<Rightarrow> pydict" where
  "game_info rt file_name content =
     [(''id'', PStr (stem file_name)),
      (''title'', PStr (extract_title (text_ops rt) content (stem file_name))),
      (''file'', PStr file_name),
      (''description'', PStr (extract_description (text_ops rt) content)),
      (''category'', PStr (detect_category (text_ops rt) content)),
      (''difficulty'', PStr ''medium''),
      (''estimated_playtime'', PStr ''10-20 min''),
      (''multiplayer'', PBool (detect_multiplayer (text_ops rt) content)),
      (''requirements'',
         PList (map PStr (extract_requirements (text_ops rt) (set_order rt) content))),
      (''version'', PStr ''1.0.0''),
      (''author'', PStr ''Unknown''),
      (''tags'', PList (map PStr (generate_tags (text_ops rt) content))),
      (''thumbnail'', PStr (''assets/thumbnails/'' @ stem file_name @ ''.png'')),
      (''achievements'', PList []),
      (''leaderboard'', PBool False),
      (''last_played'', PNone),
      (''playtime'', PNum 0),
      (''high_score'', PNum 0),
      (''completion_rate'', PNum 0)]"

text \<open>
  What the scan prints: one line \<open>Error analyzing <path>: <exception>\<close> per file whose
  analysis raised, kept here by the name of the file.
\<close>

datatype printed = Error_analyzing string

text \<open>
  A file of the folder is its name and what reading it as UTF-8 text gives (\<open>None\<close>
  when \<open>open\<close> or \<open>read\<close> raises). \<open>_analyze_game_file\<close> catches every exception of the
  read, the parse and the extraction; its handler prints the error and returns \<open>None\<close>.
  The \<open>print\<close> of the handler is outside any \<open>try\<close>: when the line cannot be encoded its
  UnicodeEncodeError leaves \<open>_analyze_game_file\<close>. The result is the exception, or the
  returned value with the lines printed.
\<close>

definition error_handler :: "runtime \<Rightarrow> string \<times> string option \<Rightarrow> error + (pydict option \<times> printed list)" where
  "error_handler rt game_file =
     (if printable rt game_file then Inr (None, [Error_analyzing (fst game_file)])
      else Inl UnicodeEncodeError)"

definition analyze_game_file ::
  "runtime \<Rightarrow> string \<times> string option \<Rightarrow> error + (pydict option \<times> printed list)" where
  "analyze_game_file rt game_file =
     (case snd game_file of
        None \<Rightarrow> error_handler rt game_file
      | Some content \<Rightarrow>
          if parses rt content
          then Inr (Some (game_info rt (fst game_file) content), [])
          else error_handler rt game_file)"

text \<open>
  The loop of \<open>scan_games_folder\<close> over the listed files. An exception of
  \<open>_analyze_game_file\<close> ends the loop; the result is then the exception with the lines
  printed before it.
\<close>

fun scan_files ::
  "runtime \<Rightarrow> (string \<times> string option) list
     \<Rightarrow> (error \<times> printed list) + (pydict list \<times> printed list)" where
  "scan_files rt [] = Inr ([], [])"
| "scan_files rt (game_file # rest) =
     (if startswith ''__'' (fst game_file) then scan_files rt rest
      else
        (case analyze_game_file rt game_file of
           Inl e \<Rightarrow> Inl (e, [])
         | Inr analysis \<Rightarrow>
             (case scan_files rt rest of
                Inl (e, out) \<Rightarrow> Inl (e, snd analysis @ out)
              | Inr scanned \<Rightarrow>
                  Inr ((case fst analysis of
                          Some info \<Rightarrow> if info \<noteq> [] then info # fst scanned else fst scanned
                        | None \<Rightarrow> fst scanned),
                       snd analysis @ snd scanned))))"

text \<open>
  \<open>scan_games_folder\<close>: \<open>folder\<close> is the listing of the games folder (\<open>None\<close> when it
  does not exist), \<open>discovered_games\<close> the list the object holds. The result of a scan
  that returns is the returned list, the list the object holds afterwards, and the
  printed lines; the result of a scan that raises is the exception, the list the
  object holds (the one from before the scan) and the lines printed before the
  exception.
\<close>

definition scan_games_folder ::
  "runtime \<Rightarrow> (string \<times> string option) list option \<Rightarrow> pydict list
     \<Rightarrow> (error \<times> pydict list \<times> printed list) + (pydict list \<times> pydict list \<times> printed list)" where
  "scan_games_folder rt folder discovered_games =
     (case folder of
        None \<Rightarrow> Inr ([], discovered_games, [])
      | Some entries \<Rightarrow>
          (case scan_files rt (filter (\<lambda>f. endswith ''.py'' (fst f)) entries) of
             Inl (e, out) \<Rightarrow> Inl (e, discovered_games, out)
           | Inr scanned \<Rightarrow> Inr (fst scanned, fst scanned, snd scanned)))"

text \<open>A file the scan can turn into a game: it can be read and its text parses.\<close>

definition valid_file :: "runtime \<Rightarrow> string \<times> string option \<Rightarrow> bool" where
  "valid_file rt f = (case snd f of None \<Rightarrow> False | Some content \<Rightarrow> parses rt content)"

text \<open>The files of a listing the scan analyzes: Python files whose name does not start
  with two underscores.\<close>

definition game_files :: "(string \<times> string option) list \<Rightarrow> (string \<times> string option) list" where
  "game_files entries =
     filter (\<lambda>f. \<not> startswith ''__'' (fst f)) (filter (\<lambda>f. endswith ''.py'' (fst f)) entries)"

definition games_of :: "runtime \<Rightarrow> (string \<times> string option) list \<Rightarrow> pydict list" where
  "games_of rt files =
     concat (map (\<lambda>f. case snd f of None \<Rightarrow> [] | Some content \<Rightarrow>
                          [game_info rt (fst f) content]) files)"

text \<open>The files of a listing up to the first one whose analysis fails with an error
  line that cannot be printed, that file left out.\<close>

definition reached :: "runtime \<Rightarrow> (string \<times> string option) list \<Rightarrow> (string \<times> string option) list" where
  "reached rt files = takeWhile (\<lambda>f. valid_file rt f \<or> printable rt f) files"

text \<open>A standard output that encodes ASCII only, as \<open>printable\<close>: it can print the error
  line of a file when the name of the file is ASCII (the rest of the line being so).\<close>

definition ascii_stdout :: "string \<times> string option \<Rightarrow> bool" where
  "ascii_stdout game_file = list_all (\<lambda>c. (of_char c :: nat) < 128) (fst game_file)"

section \<open>Favorites and achievements are idempotent\<close>

lemma favorites_save_profile:
  "favorites (profile_data (save_profile now m)) = favorites (profile_data m)"
  by (simp add: save_profile_def Let_def)

lemma achievements_save_profile:
  "achievements (profile_data (save_profile now m)) = achievements (profile_data m)"
  by (simp add: save_profile_def Let_def)

lemma add_favorite_member:
  "gid \<in> set (favorites (profile_data (add_favorite now gid m)))"
  by (simp add: add_favorite_def favorites_save_profile)

lemma unlock_achievement_held:
  "map_of (achievements (profile_data (snd (unlock_achievement t1 t2 a g d m)))) a \<noteq> None"
  by (simp add: unlock_achievement_def Let_def save_stats_def achievements_save_profile
      update_conv')

text \<open>
  C5. Adding a favorite a second time changes nothing: the manager (so the favorites
  sequence) is the one the first call left. Unlocking an achievement that is already
  held returns False and leaves the manager as it was, so \<open>achievement_count\<close> and the
  achievements mapping are unchanged; this holds whatever game id, description and clock
  readings the second call is given.
\<close>

theorem favorites_achievements_idempotent:
  "add_favorite now2 x (add_favorite now1 x m) = add_favorite now1 x m \<and>
   favorites (profile_data (add_favorite now2 x (add_favorite now1 x m)))
     = favorites (profile_data (add_favorite now1 x m)) \<and>
   fst (unlock_achievement t3 t4 a g2 d2 (snd (unlock_achievement t1 t2 a g1 d1 m))) = False \<and>
   snd (unlock_achievement t3 t4 a g2 d2 (snd (unlock_achievement t1 t2 a g1 d1 m)))
     = snd (unlock_achievement t1 t2 a g1 d1 m) \<and>
   achievement_count (stats_data
       (snd (unlock_achievement t3 t4 a g2 d2 (snd (unlock_achievement t1 t2 a g1 d1 m)))))
     = achievement_count (stats_data (snd (unlock_achievement t1 t2 a g1 d1 m))) \<and>
   achievements (profile_data
       (snd (unlock_achievement t3 t4 a g2 d2 (snd (unlock_achievement t1 t2 a g1 d1 m)))))
     = achievements (profile_data (snd (unlock_achievement t1 t2 a g1 d1 m)))"
proof -
  have fav: "add_favorite now2 x (add_favorite now1 x m) = add_favorite now1 x m"
    using add_favorite_member [of x now1 m]
    by (simp add: add_favorite_def [of now2])
  have held: "unlock_achievement t3 t4 a g2 d2 (snd (unlock_achievement t1 t2 a g1 d1 m))
      = (False, snd (unlock_achievement t1 t2 a g1 d1 m))"
    using unlock_achievement_held [of t1 t2 a g1 d1 m]
    by (simp add: unlock_achievement_def [of t3])
  show ?thesis
    by (simp add: fav held)
qed

section \<open>Recording sessions: step facts\<close>

lemmas rgs_eval = record_game_session_def new_manager_def default_stats_def Let_def
  default_game_stat_def save_stats_def update_time_based_stats_def update_daily_def
  update_period_def get_game_stats_def new_average_def py_mul_def py_add_def py_truediv_def
  int_to_float_def round_float_def float_limit_def

lemma list_all_update:
  "list_all P al \<Longrightarrow> P (k, v) \<Longrightarrow> list_all P (AList.update k v al)"
  by (induction al) auto

lemma list_all_map_of:
  "list_all P al \<Longrightarrow> map_of al k = Some v \<Longrightarrow> P (k, v)"
  by (induction al) (auto split: if_splits)

lemma game_stats_utbs:
  "game_stats (update_time_based_stats now gid d sc s) = game_stats s"
  by (simp add: update_time_based_stats_def)

lemma rgs_game_stats:
  assumes "record_game_session t now gid d sc m = Inr m'"
  shows "\<exists>r. game_stats (stats_data m') = AList.update gid r (game_stats (stats_data m)) \<and>
      sessions r = sessions (get_game_stats gid m) + 1 \<and>
      high_score r = max (high_score (get_game_stats gid m)) sc \<and>
      (if 0 < sc
       then \<exists>a. new_average
                  (case average_score (get_game_stats gid m) of None \<Rightarrow> PyInt 0 | Some a \<Rightarrow> a)
                  (sessions (get_game_stats gid m) + 1) sc = Inr a \<and>
                average_score r = Some a
       else average_score r = average_score (get_game_stats gid m))"
  using assms
  by (auto simp: record_game_session_def Let_def get_game_stats_def save_stats_def
      game_stats_utbs max_def split: if_splits option.splits sum.splits)


lemma rgs_returns:
  assumes "sc \<le> 0 \<or>
      \<not> isl (new_average
        (case average_score (get_game_stats gid m) of None \<Rightarrow> PyInt 0 | Some a \<Rightarrow> a)
        (sessions (get_game_stats gid m) + 1) sc)"
  shows "\<exists>m'. record_game_session t now gid d sc m = Inr m'"
  using assms
  by (auto simp: record_game_session_def Let_def get_game_stats_def
      split: if_splits option.splits sum.splits)

lemma rgs_get_other:
  assumes "record_game_session t now gid d sc m = Inr m'" and "g \<noteq> gid"
  shows "get_game_stats g m' = get_game_stats g m"
proof -
  from rgs_game_stats [OF assms(1)] obtain r where
    "game_stats (stats_data m') = AList.update gid r (game_stats (stats_data m))" by blast
  with assms(2) show ?thesis
    by (simp add: get_game_stats_def update_conv')
qed

lemma rgs_get_same:
  assumes "record_game_session t now gid d sc m = Inr m'"
  shows "sessions (get_game_stats gid m') = sessions (get_game_stats gid m) + 1 \<and>
      high_score (get_game_stats gid m') = max (high_score (get_game_stats gid m)) sc \<and>
      (if 0 < sc
       then \<exists>a. new_average
                  (case average_score (get_game_stats gid m) of None \<Rightarrow> PyInt 0 | Some a \<Rightarrow> a)
                  (sessions (get_game_stats gid m) + 1) sc = Inr a \<and>
                average_score (get_game_stats gid m') = Some a
       else average_score (get_game_stats gid m') = average_score (get_game_stats gid m))"
proof -
  from rgs_game_stats [OF assms] obtain r where
    r: "game_stats (stats_data m') = AList.update gid r (game_stats (stats_data m))"
    and rest: "sessions r = sessions (get_game_stats gid m) + 1 \<and>
      high_score r = max (high_score (get_game_stats gid m)) sc \<and>
      (if 0 < sc
       then \<exists>a. new_average
                  (case average_score (get_game_stats gid m) of None \<Rightarrow> PyInt 0 | Some a \<Rightarrow> a)
                  (sessions (get_game_stats gid m) + 1) sc = Inr a \<and>
                average_score r = Some a
       else average_score r = average_score (get_game_stats gid m))"
    by blast
  have "get_game_stats gid m' = r"
    by (simp add: get_game_stats_def r update_conv')
  with rest show ?thesis by simp
qed






section \<open>Calls that stay in the float range return\<close>

lemma float_limit_pos: "1 < float_limit"
  by (simp add: float_limit_def)

lemma int_to_float_small:
  "0 \<le> n \<Longrightarrow> of_int n < float_limit \<Longrightarrow> int_to_float n = Inr (Finite (of_int n))"
  by (simp add: int_to_float_def)

lemma float_div_returns: "b \<noteq> 0 \<Longrightarrow> \<exists>y. float_div x (Finite b) = Inr y"
  by (cases x) simp_all

lemma new_average_returns:
  assumes "record_ok bound r" and "0 < sc" and "of_int sc < float_limit"
    and "of_int (bound + 1) < float_limit"
  shows "\<exists>f. new_average (case average_score r of None \<Rightarrow> PyInt 0 | Some a \<Rightarrow> a)
           (sessions r + 1) sc = Inr (PyFloat f)"
proof -
  from assms(1) have n0: "0 \<le> sessions r" and nb: "sessions r \<le> bound"
    by (simp_all add: record_ok_def)
  from nb assms(4) have b1: "(of_int (sessions r + 1) :: rat) < float_limit"
    by (smt (verit) of_int_less_iff less_le_trans not_less of_int_le_iff order_trans)
  from nb assms(4) have b0: "(of_int (sessions r) :: rat) < float_limit"
    by (smt (verit) of_int_less_iff less_le_trans not_less of_int_le_iff order_trans)
  have c1: "int_to_float (sessions r + 1) = Inr (Finite (of_int (sessions r + 1)))"
    using n0 b1 by (intro int_to_float_small) simp_all
  have c0: "int_to_float (sessions r) = Inr (Finite (of_int (sessions r)))"
    using n0 b0 by (intro int_to_float_small) simp_all
  have cs: "int_to_float sc = Inr (Finite (of_int sc))"
    using assms(2,3) by (intro int_to_float_small) simp_all
  have nz: "(of_int (sessions r + 1) :: rat) \<noteq> 0"
    using n0 by (metis add.commute add_nonneg_eq_0_iff of_int_eq_0_iff zero_neq_one zero_le_one)
  have q: "\<bar>(of_int sc :: rat) / of_int (sessions r + 1)\<bar> < float_limit"
  proof -
    have "(1::rat) \<le> of_int (sessions r + 1)" using n0 by simp
    then have "(of_int sc :: rat) / of_int (sessions r + 1) \<le> of_int sc"
      using assms(2) by (simp add: divide_le_eq mult_mono)
    moreover have "(0::rat) \<le> of_int sc / of_int (sessions r + 1)"
      using assms(2) n0 by simp
    ultimately show ?thesis using assms(3) by (simp only: abs_of_nonneg)
  qed
  show ?thesis
  proof (cases "average_score r")
    case None
    with q n0 show ?thesis
      by (simp add: new_average_def py_mul_def py_add_def py_truediv_def)
  next
    case (Some v)
    show ?thesis
    proof (cases v)
      case (PyInt a)
      with Some assms(1) have "a = 0" by (simp add: record_ok_def)
      with Some PyInt q n0 show ?thesis
        by (simp add: new_average_def py_mul_def py_add_def py_truediv_def)
    next
      case (PyFloat f)
      obtain y where y: "float_div (float_add (float_mul f (Finite (of_int (sessions r))))
          (Finite (of_int sc))) (Finite (of_int (sessions r + 1))) = Inr y"
        using float_div_returns [OF nz] by blast
      with Some PyFloat c0 c1 cs show ?thesis
        by (simp add: new_average_def py_mul_def py_add_def py_truediv_def)
    qed
  qed
qed

lemma stats_ok_get:
  "stats_ok bound m \<Longrightarrow> 0 \<le> bound \<Longrightarrow> record_ok bound (get_game_stats g m)"
  by (auto simp: stats_ok_def get_game_stats_def default_game_stat_def record_ok_def
      split: option.splits dest: list_all_map_of)

lemma record_ok_mono: "record_ok b r \<Longrightarrow> b \<le> c \<Longrightarrow> record_ok c r"
  by (auto simp: record_ok_def)

lemma stats_ok_mono: "stats_ok b m \<Longrightarrow> b \<le> c \<Longrightarrow> stats_ok c m"
  unfolding stats_ok_def list_all_iff by (auto intro: record_ok_mono)

lemma rgs_total:
  assumes "stats_ok bound m" and "0 \<le> bound" and "of_int sc < float_limit"
    and "of_int (bound + 1) < float_limit"
  shows "\<exists>m'. record_game_session t now gid d sc m = Inr m' \<and> stats_ok (bound + 1) m'"
proof -
  note ok = stats_ok_get [OF assms(1,2), of gid]
  have "sc \<le> 0 \<or>
      \<not> isl (new_average
        (case average_score (get_game_stats gid m) of None \<Rightarrow> PyInt 0 | Some a \<Rightarrow> a)
        (sessions (get_game_stats gid m) + 1) sc)"
  proof (cases "0 < sc")
    case True
    from new_average_returns [OF ok True assms(3,4)] show ?thesis by auto
  next
    case False
    then show ?thesis by simp
  qed
  from rgs_returns [OF this] obtain m' where
    m': "record_game_session t now gid d sc m = Inr m'" by blast
  from rgs_game_stats [OF m'] obtain r where
    r: "game_stats (stats_data m') = AList.update gid r (game_stats (stats_data m))"
    and s: "sessions r = sessions (get_game_stats gid m) + 1"
    and a: "if 0 < sc
       then \<exists>a. new_average
                  (case average_score (get_game_stats gid m) of None \<Rightarrow> PyInt 0 | Some a \<Rightarrow> a)
                  (sessions (get_game_stats gid m) + 1) sc = Inr a \<and>
                average_score r = Some a
       else average_score r = average_score (get_game_stats gid m)"
    by blast
  have avg: "case average_score r of Some (PyInt a) \<Rightarrow> a = 0 | _ \<Rightarrow> True"
  proof (cases "0 < sc")
    case True
    from new_average_returns [OF ok True assms(3,4)] a True show ?thesis by auto
  next
    case False
    with a ok show ?thesis by (simp add: record_ok_def)
  qed
  from ok s have "0 \<le> sessions r \<and> sessions r \<le> bound + 1"
    by (simp add: record_ok_def)
  with avg have "record_ok (bound + 1) r" by (simp add: record_ok_def)
  moreover have "stats_ok (bound + 1) m" using assms(1) by (rule stats_ok_mono) simp
  ultimately have "stats_ok (bound + 1) m'"
    by (simp add: stats_ok_def r list_all_update)
  with m' show ?thesis by blast
qed

lemma run_total:
  "stats_ok bound m \<Longrightarrow> 0 \<le> bound \<Longrightarrow> scores_in_range cs \<Longrightarrow>
     of_int (bound + int (length cs)) < float_limit \<Longrightarrow>
     \<exists>m'. run_sessions cs m = Inr m' \<and> stats_ok (bound + int (length cs)) m'"
proof (induction cs m arbitrary: bound rule: run_sessions.induct)
  case (1 m)
  then show ?case by simp
next
  case (2 t now gid d sc cs m)
  from "2.prems"(3) have sc: "of_int sc < float_limit" and rest: "scores_in_range cs"
    by simp_all
  have "(of_int (bound + 1) :: rat) \<le> of_int (bound + int (length ((t, now, gid, d, sc) # cs)))"
    by simp
  from this "2.prems"(4) have b1: "(of_int (bound + 1) :: rat) < float_limit"
    by (rule le_less_trans)
  from rgs_total [OF "2.prems"(1,2) sc b1] obtain m1 where
    m1: "record_game_session t now gid d sc m = Inr m1" and ok1: "stats_ok (bound + 1) m1"
    by blast
  have le: "0 \<le> bound + 1" using "2.prems"(2) by simp
  have lim: "(of_int (bound + 1 + int (length cs)) :: rat) < float_limit"
    using "2.prems"(4) by (simp add: add.assoc add.commute)
  have eq: "bound + 1 + int (length cs) = bound + int (length ((t, now, gid, d, sc) # cs))"
    by simp
  from "2.IH" [OF m1 ok1 le rest lim] obtain m' where
    "run_sessions cs m1 = Inr m'" and "stats_ok (bound + 1 + int (length cs)) m'" by blast
  with m1 show ?case by (simp only: eq run_sessions.simps sum.case) blast
qed

section \<open>The running average\<close>

lemma round_float_small: "0 \<le> x \<Longrightarrow> x < float_limit \<Longrightarrow> round_float x = Finite x"
  using float_limit_pos by (simp add: round_float_def)

lemma div_le_self_rat: "0 \<le> (a::rat) \<Longrightarrow> 1 \<le> b \<Longrightarrow> a / b \<le> a"
  using frac_le [of a a 1 b] by simp

lemma new_average_first:
  assumes "new_average (PyInt 0) 1 sc = Inr a"
  shows "a = PyFloat (Finite (of_int sc))"
  using assms
  by (simp add: new_average_def py_mul_def py_add_def py_truediv_def split: if_splits)

lemma new_average_next:
  assumes "0 < n" and "0 \<le> S" and "0 < sc" and "of_int (S + sc) < float_limit"
    and "new_average (PyFloat (Finite (of_int S / of_int n))) (n + 1) sc = Inr a"
  shows "a = PyFloat (Finite (of_int (S + sc) / of_int (n + 1)))"
proof -
  have cn: "int_to_float n = Inr (Finite (of_int n))"
    using assms(5) by (simp add: new_average_def py_mul_def int_to_float_def split: if_splits)
  have cs: "int_to_float sc = Inr (Finite (of_int sc))"
    using assms(5) cn
    by (simp add: new_average_def py_mul_def py_add_def int_to_float_def [of sc]
        split: if_splits)
  have cn1: "int_to_float (n + 1) = Inr (Finite (of_int (n + 1)))"
    using assms(5) cn cs
    by (simp add: new_average_def py_mul_def py_add_def py_truediv_def
        int_to_float_def [of "n + 1"] split: if_splits)
  have nz: "(of_int n :: rat) \<noteq> 0" using assms(1) by simp
  have nz1: "(of_int (n + 1) :: rat) \<noteq> 0" using assms(1) by simp
  have S0: "(0::rat) \<le> of_int S" using assms(2) by simp
  have S1: "(of_int S :: rat) < float_limit"
  proof -
    have "(of_int S :: rat) \<le> of_int (S + sc)" using assms(3) by simp
    from this assms(4) show ?thesis by (rule le_less_trans)
  qed
  have mul: "float_mul (Finite (of_int S / of_int n)) (Finite (of_int n)) = Finite (of_int S)"
    using nz round_float_small [OF S0 S1] by simp
  have T0: "(0::rat) \<le> of_int S + of_int sc" using assms(2,3) by simp
  have T1: "(of_int S + of_int sc :: rat) < float_limit" using assms(4) by simp
  have add: "float_add (Finite (of_int S)) (Finite (of_int sc)) = Finite (of_int S + of_int sc)"
    using round_float_small [OF T0 T1] by simp
  have Q0: "(0::rat) \<le> (of_int S + of_int sc) / of_int (n + 1)"
    using T0 assms(1) by simp
  have "(1::rat) \<le> of_int (n + 1)" using assms(1) by simp
  from div_le_self_rat [OF T0 this]
  have "(of_int S + of_int sc) / of_int (n + 1) \<le> (of_int S + of_int sc :: rat)" .
  from this T1 have Q1: "(of_int S + of_int sc) / of_int (n + 1) < float_limit"
    by (rule le_less_trans)
  have dv: "float_div (Finite (of_int S + of_int sc)) (Finite (of_int (n + 1)))
      = Inr (Finite ((of_int S + of_int sc) / of_int (n + 1)))"
    using nz1 round_float_small [OF Q0 Q1] by (simp del: of_int_add)
  from assms(5) show ?thesis
    by (simp add: new_average_def py_mul_def py_add_def py_truediv_def cn cs cn1 mul add dv
        del: of_int_add float_div.simps float_mul.simps float_add.simps) simp
qed

lemma run_average:
  assumes "run_sessions cs m = Inr m'"
    and "list_all (\<lambda>s. 0 < s) (scores_of g cs)"
    and "mean_held S (get_game_stats g m)"
    and "of_int (S + sum_list (scores_of g cs)) < float_limit"
  shows "mean_held (S + sum_list (scores_of g cs)) (get_game_stats g m') \<and>
     sessions (get_game_stats g m')
       = sessions (get_game_stats g m) + int (length (scores_of g cs))"
  using assms
proof (induction cs m arbitrary: S rule: run_sessions.induct)
  case (1 m)
  then show ?case by simp
next
  case (2 t now gid d sc cs m)
  from "2.prems"(1) obtain m1 where
    m1: "record_game_session t now gid d sc m = Inr m1" and run: "run_sessions cs m1 = Inr m'"
    by (cases "record_game_session t now gid d sc m") auto
  show ?case
  proof (cases "gid = g")
    case True
    with "2.prems"(2) have pos: "0 < sc" and rest: "list_all (\<lambda>s. 0 < s) (scores_of g cs)"
      by simp_all
    from rest have sum0: "0 \<le> sum_list (scores_of g cs)"
      by (induction "scores_of g cs" arbitrary: cs) (auto simp: sum_list_nonneg list_all_iff
          intro!: sum_list_nonneg)
    have lim: "(of_int (S + sc + sum_list (scores_of g cs)) :: rat) < float_limit"
      using "2.prems"(4) True by (simp add: add.assoc)
    have "(of_int (S + sc) :: rat) \<le> of_int (S + sc + sum_list (scores_of g cs))"
      using sum0 by simp
    from this lim have lim1: "(of_int (S + sc) :: rat) < float_limit"
      by (rule le_less_trans)
    from rgs_get_same [OF m1] True pos obtain a where
      s1: "sessions (get_game_stats g m1) = sessions (get_game_stats g m) + 1"
      and na: "new_average
                  (case average_score (get_game_stats g m) of None \<Rightarrow> PyInt 0 | Some a \<Rightarrow> a)
                  (sessions (get_game_stats g m) + 1) sc = Inr a"
      and a1: "average_score (get_game_stats g m1) = Some a"
      by auto
    have held1: "mean_held (S + sc) (get_game_stats g m1)"
    proof (cases "sessions (get_game_stats g m) = 0")
      case z: True
      with "2.prems"(3) have S: "S = 0"
        and avg: "average_score (get_game_stats g m) = Some (PyInt 0)"
        by (simp_all add: mean_held_def)
      from na have "a = PyFloat (Finite (of_int sc))"
        by (simp add: z avg new_average_first)
      with s1 z a1 S pos show ?thesis by (simp add: mean_held_def)
    next
      case nz: False
      with "2.prems"(3) have n: "0 < sessions (get_game_stats g m)" and S0: "0 \<le> S"
        and avg: "average_score (get_game_stats g m)
           = Some (PyFloat (Finite (of_int S / of_int (sessions (get_game_stats g m)))))"
        by (simp_all add: mean_held_def)
      from na have "new_average
          (PyFloat (Finite (of_int S / of_int (sessions (get_game_stats g m)))))
          (sessions (get_game_stats g m) + 1) sc = Inr a"
        by (simp add: avg)
      from new_average_next [OF n S0 pos lim1 this]
      have "a = PyFloat (Finite (of_int (S + sc) / of_int (sessions (get_game_stats g m) + 1)))" .
      with s1 a1 n S0 pos show ?thesis by (simp add: mean_held_def)
    qed
    note ih = "2.IH" [OF m1 run rest held1 lim]
    have A: "mean_held (S + sc + sum_list (scores_of g cs)) (get_game_stats g m')"
      and B: "sessions (get_game_stats g m')
       = sessions (get_game_stats g m1) + int (length (scores_of g cs))"
      using ih by blast+
    have "mean_held (S + sum_list (scores_of g ((t, now, gid, d, sc) # cs))) (get_game_stats g m')"
      using A True by (simp add: add.assoc)
    moreover have "sessions (get_game_stats g m')
       = sessions (get_game_stats g m) + int (length (scores_of g ((t, now, gid, d, sc) # cs)))"
      using B s1 True by simp
    ultimately show ?thesis by blast
  next
    case False
    with "2.prems"(2) have rest: "list_all (\<lambda>s. 0 < s) (scores_of g cs)" by simp
    from rgs_get_other [OF m1, of g] False
    have same: "get_game_stats g m1 = get_game_stats g m" by simp
    have held1: "mean_held S (get_game_stats g m1)"
      using "2.prems"(3) by (simp only: same)
    have sc: "scores_of g ((t, now, gid, d, sc) # cs) = scores_of g cs"
      using False by simp
    have lim: "(of_int (S + sum_list (scores_of g cs)) :: rat) < float_limit"
      using "2.prems"(4) by (simp only: sc)
    from "2.IH" [OF m1 run rest held1 lim] show ?thesis
      unfolding sc same .
  qed
qed

text \<open>
  When every score passed for a game is positive, the game had no record before and the
  numbers stay in the float range, the sequence returns and the stored average is the
  arithmetic mean of those scores (calls for other games may be interleaved).
\<close>

lemma run_average_fresh:
  assumes "map_of (game_stats (stats_data m)) g = None"
    and "list_all (\<lambda>s. 0 < s) (scores_of g cs)"
    and "scores_of g cs \<noteq> []"
    and "of_int (sum_list (scores_of g cs)) < float_limit"
    and "stats_ok bound m" and "0 \<le> bound" and "scores_in_range cs"
    and "of_int (bound + int (length cs)) < float_limit"
  shows "\<exists>m'. run_sessions cs m = Inr m' \<and>
     average_score (get_game_stats g m')
       = Some (PyFloat (Finite (of_int (sum_list (scores_of g cs))
                                 / of_int (int (length (scores_of g cs))))))"
proof -
  from run_total [OF assms(5-8)] obtain m' where run: "run_sessions cs m = Inr m'" by blast
  from assms(1) have fresh: "get_game_stats g m = default_game_stat"
    by (simp add: get_game_stats_def)
  have held: "mean_held 0 (get_game_stats g m)"
    by (simp add: fresh default_game_stat_def mean_held_def)
  have lim: "(of_int (0 + sum_list (scores_of g cs)) :: rat) < float_limit"
    using assms(4) by simp
  note ra = run_average [OF run assms(2) held lim]
  have n: "sessions (get_game_stats g m') = int (length (scores_of g cs))"
    using ra [THEN conjunct2] by (simp add: fresh default_game_stat_def)
  with assms(3) have "sessions (get_game_stats g m') \<noteq> 0" by simp
  with ra [THEN conjunct1] n have "average_score (get_game_stats g m')
       = Some (PyFloat (Finite (of_int (sum_list (scores_of g cs))
                                 / of_int (int (length (scores_of g cs))))))"
    by (simp add: mean_held_def)
  with run show ?thesis by blast
qed

text \<open>
  C1. The second half of the claim fails on the code: a session with score 0 leaves
  \<open>average_score\<close> as it is, but it does increment \<open>sessions\<close>, and \<open>sessions\<close> is the
  divisor (and, less one, the weight of the old average) of the next update. After the
  sessions 100, 0, 300 for one game the code stores 3 sessions and the average
  \<open>(100 * 2 + 300) / 3 = 500 / 3\<close>, which is neither the mean of the scored sessions
  (200) nor the mean of all three.
\<close>

theorem zero_score_session_changes_divisor:
  "\<not> isl (run_sessions
      [(''t1'', \<lparr>today = ''2024-05-01'', this_week = ''2024-W17'', this_month = ''2024-05''\<rparr>, ''x'', 10, 100),
       (''t2'', \<lparr>today = ''2024-05-01'', this_week = ''2024-W17'', this_month = ''2024-05''\<rparr>, ''x'', 10, 0),
       (''t3'', \<lparr>today = ''2024-05-01'', this_week = ''2024-W17'', this_month = ''2024-05''\<rparr>, ''x'', 10, 300)]
      (new_manager ''default'' ''t0'')) \<and>
   sessions (get_game_stats ''x'' (projr (run_sessions
      [(''t1'', \<lparr>today = ''2024-05-01'', this_week = ''2024-W17'', this_month = ''2024-05''\<rparr>, ''x'', 10, 100),
       (''t2'', \<lparr>today = ''2024-05-01'', this_week = ''2024-W17'', this_month = ''2024-05''\<rparr>, ''x'', 10, 0),
       (''t3'', \<lparr>today = ''2024-05-01'', this_week = ''2024-W17'', this_month = ''2024-05''\<rparr>, ''x'', 10, 300)]
      (new_manager ''default'' ''t0'')))) = 3 \<and>
   average_score (get_game_stats ''x'' (projr (run_sessions
      [(''t1'', \<lparr>today = ''2024-05-01'', this_week = ''2024-W17'', this_month = ''2024-05''\<rparr>, ''x'', 10, 100),
       (''t2'', \<lparr>today = ''2024-05-01'', this_week = ''2024-W17'', this_month = ''2024-05''\<rparr>, ''x'', 10, 0),
       (''t3'', \<lparr>today = ''2024-05-01'', this_week = ''2024-W17'', this_month = ''2024-05''\<rparr>, ''x'', 10, 300)]
      (new_manager ''default'' ''t0'')))) = Some (PyFloat (Finite (500 / 3)))"
  by (simp add: rgs_eval)

section \<open>The high score\<close>




section \<open>Daily score history\<close>




section \<open>Recommendations follow the catalog order\<close>

lemma unplayed_games_filter:
  "unplayed_games played gs = Inr r \<Longrightarrow>
     r = filter (\<lambda>g. map_of g ''id'' \<notin> set (map (\<lambda>s. Some (PStr s)) played)) gs"
proof (induction gs arbitrary: r)
  case Nil
  then show ?case by simp
next
  case (Cons g gs)
  then obtain v k r' where v: "map_of g ''id'' = Some v" and k: "py_key v = Inr k"
    and r': "unplayed_games played gs = Inr r'"
    and r: "r = (if k \<notin> set (map PStr played) then g # r' else r')"
    by (auto split: option.splits sum.splits)
  have "k \<in> set (map PStr played) \<longleftrightarrow> Some v \<in> set (map (\<lambda>s. Some (PStr s)) played)"
    using k by (cases v) (auto split: if_splits)
  with Cons.IH [OF r'] r v show ?case by simp
qed

lemma take_recommended:
  assumes "0 \<le> limit"
  shows "py_take limit
     (if int (length (py_take limit cat)) < limit
      then py_take limit cat @ py_take (limit - int (length (py_take limit cat))) other
      else py_take limit cat) = take (nat limit) (cat @ other)"
  using assms by (auto simp: py_take_def min_def nat_diff_distrib' )

lemma find_game_readable:
  "list_all readable_game gs \<Longrightarrow>
     find_game gid gs = Inr None \<or> (\<exists>g. find_game gid gs = Inr (Some g) \<and> readable_game g)"
  by (induction gs) (auto simp: readable_game_def split: option.splits)

lemma played_categories_returns:
  "list_all readable_game gs \<Longrightarrow> \<exists>cats. played_categories st gs acc = Inr cats"
proof (induction st gs acc rule: played_categories.induct)
  case (1 all_games acc)
  then show ?case by simp
next
  case (2 gid st rest all_games acc)
  from find_game_readable [OF "2.prems", of gid]
  show ?case
  proof
    assume n: "find_game gid all_games = Inr None"
    with "2.IH"(1) "2.prems" show ?thesis by simp
  next
    assume "\<exists>g. find_game gid all_games = Inr (Some g) \<and> readable_game g"
    then obtain g where g: "find_game gid all_games = Inr (Some g)" and rg: "readable_game g"
      by blast
    show ?thesis
    proof (cases "g = []")
      case True
      with "2.IH"(2) "2.prems" g show ?thesis by simp
    next
      case False
      from rg have "\<not> isl (py_key (case map_of g ''category'' of
          None \<Rightarrow> PStr ''arcade'' | Some c \<Rightarrow> c))"
        by (simp add: readable_game_def)
      then obtain k where
        k: "py_key (case map_of g ''category'' of None \<Rightarrow> PStr ''arcade'' | Some c \<Rightarrow> c) = Inr k"
        by (cases "py_key (case map_of g ''category'' of
          None \<Rightarrow> PStr ''arcade'' | Some c \<Rightarrow> c)") auto
      with "2.IH"(3) "2.prems" g False show ?thesis
        by simp
    qed
  qed
qed

lemma unplayed_games_returns:
  "list_all readable_game gs \<Longrightarrow> \<exists>r. unplayed_games played gs = Inr r"
  by (induction gs) (auto simp: readable_game_def split: option.splits sum.splits)

text \<open>
  C8. For a limit that is not negative: with an empty per-game statistics map the call
  returns the first \<open>limit\<close> entries of \<open>all_games\<close>; otherwise what it returns is the
  list of the games whose \<open>id\<close> is no key of the statistics map, those of the favorite
  category first and the others after them, each group in catalog order, cut to \<open>limit\<close>
  entries. The favorite category is the one \<open>find_favorite_category\<close> picks from the
  playtime accumulated per category. The call returns whenever every catalog entry
  has an \<open>id\<close> and hashable \<open>id\<close> and \<open>category\<close>.
\<close>

theorem recommended_games_order:
  assumes "0 \<le> limit"
  shows "(list_all readable_game all_games \<longrightarrow>
            (\<exists>r m'. get_recommended_games all_games limit m = Inr (r, m'))) \<and>
         (\<forall>r m'. get_recommended_games all_games limit m = Inr (r, m') \<longrightarrow>
            (if game_stats (stats_data m) = [] then r = take (nat limit) all_games
             else \<exists>cats. played_categories (game_stats (stats_data m)) all_games [] = Inr cats \<and>
                 r = take (nat limit)
                   (filter (has_category (find_favorite_category cats))
                      (filter (\<lambda>g. map_of g ''id'' \<notin>
                           set (map (\<lambda>s. Some (PStr s)) (map fst (game_stats (stats_data m)))))
                         all_games)
                    @ filter (\<lambda>g. \<not> has_category (find_favorite_category cats) g)
                      (filter (\<lambda>g. map_of g ''id'' \<notin>
                           set (map (\<lambda>s. Some (PStr s)) (map fst (game_stats (stats_data m)))))
                         all_games))))"
proof (intro conjI impI allI)
  assume rd: "list_all readable_game all_games"
  from played_categories_returns [OF rd] obtain cats where
    "played_categories (game_stats (stats_data m)) all_games [] = Inr cats" by blast
  moreover from unplayed_games_returns [OF rd] obtain u where
    "unplayed_games (map fst (game_stats (stats_data m))) all_games = Inr u" by blast
  ultimately show "\<exists>r m'. get_recommended_games all_games limit m = Inr (r, m')"
    by (simp add: get_recommended_games_def Let_def)
next
  fix r m'
  assume res: "get_recommended_games all_games limit m = Inr (r, m')"
  show "if game_stats (stats_data m) = [] then r = take (nat limit) all_games
     else \<exists>cats. played_categories (game_stats (stats_data m)) all_games [] = Inr cats \<and>
                 r = take (nat limit)
                   (filter (has_category (find_favorite_category cats))
                      (filter (\<lambda>g. map_of g ''id'' \<notin>
                           set (map (\<lambda>s. Some (PStr s)) (map fst (game_stats (stats_data m)))))
                         all_games)
                    @ filter (\<lambda>g. \<not> has_category (find_favorite_category cats) g)
                      (filter (\<lambda>g. map_of g ''id'' \<notin>
                           set (map (\<lambda>s. Some (PStr s)) (map fst (game_stats (stats_data m)))))
                         all_games))"
  proof (cases "game_stats (stats_data m) = []")
    case True
    with res assms show ?thesis
      by (simp add: get_recommended_games_def py_take_def)
  next
    case False
    with res obtain cats u where
      cats: "played_categories (game_stats (stats_data m)) all_games [] = Inr cats"
      and u: "unplayed_games (map fst (game_stats (stats_data m))) all_games = Inr u"
      by (auto simp: get_recommended_games_def Let_def split: sum.splits)
    from res False cats u
    have "r = take (nat limit)
        (filter (has_category (find_favorite_category cats)) u
         @ filter (\<lambda>g. \<not> has_category (find_favorite_category cats) g) u)"
      by (simp add: get_recommended_games_def Let_def take_recommended [OF assms])
    with unplayed_games_filter [OF u] cats False show ?thesis
      by simp
  qed
qed

theorem recommended_games_order_witness:
  "(0::int) \<le> 2 \<and>
   list_all readable_game
      [[(''id'', PStr ''a''), (''category'', PStr ''arcade'')],
       [(''id'', PStr ''b''), (''category'', PStr ''puzzle'')],
       [(''id'', PStr ''c''), (''category'', PStr ''arcade'')],
       [(''id'', PStr ''d''), (''category'', PStr ''puzzle'')]] \<and>
   (\<exists>m'. get_recommended_games
      [[(''id'', PStr ''a''), (''category'', PStr ''arcade'')],
       [(''id'', PStr ''b''), (''category'', PStr ''puzzle'')],
       [(''id'', PStr ''c''), (''category'', PStr ''arcade'')],
       [(''id'', PStr ''d''), (''category'', PStr ''puzzle'')]] 2
      ((new_manager ''default'' ''t0'')
        \<lparr>stats_data := default_stats
           \<lparr>game_stats := [(''a'', default_game_stat\<lparr>playtime := 100, sessions := 1\<rparr>)]\<rparr>\<rparr>)
     = Inr ([[(''id'', PStr ''c''), (''category'', PStr ''arcade'')],
             [(''id'', PStr ''b''), (''category'', PStr ''puzzle'')]], m'))"
proof -
  have h: "(0::int) \<le> 2" by simp
  have rd: "list_all readable_game
      [[(''id'', PStr ''a''), (''category'', PStr ''arcade'')],
       [(''id'', PStr ''b''), (''category'', PStr ''puzzle'')],
       [(''id'', PStr ''c''), (''category'', PStr ''arcade'')],
       [(''id'', PStr ''d''), (''category'', PStr ''puzzle'')]]"
    by (simp add: readable_game_def)
  from recommended_games_order [OF h, of
      "[[(''id'', PStr ''a''), (''category'', PStr ''arcade'')],
       [(''id'', PStr ''b''), (''category'', PStr ''puzzle'')],
       [(''id'', PStr ''c''), (''category'', PStr ''arcade'')],
       [(''id'', PStr ''d''), (''category'', PStr ''puzzle'')]]"
      "((new_manager ''default'' ''t0'')
        \<lparr>stats_data := default_stats
           \<lparr>game_stats := [(''a'', default_game_stat\<lparr>playtime := 100, sessions := 1\<rparr>)]\<rparr>\<rparr>)"] rd
  obtain r m' where res: "get_recommended_games
      [[(''id'', PStr ''a''), (''category'', PStr ''arcade'')],
       [(''id'', PStr ''b''), (''category'', PStr ''puzzle'')],
       [(''id'', PStr ''c''), (''category'', PStr ''arcade'')],
       [(''id'', PStr ''d''), (''category'', PStr ''puzzle'')]] 2
      ((new_manager ''default'' ''t0'')
        \<lparr>stats_data := default_stats
           \<lparr>game_stats := [(''a'', default_game_stat\<lparr>playtime := 100, sessions := 1\<rparr>)]\<rparr>\<rparr>)
     = Inr (r, m')"
    by blast
  moreover from res
  have "r = [[(''id'', PStr ''c''), (''category'', PStr ''arcade'')],
             [(''id'', PStr ''b''), (''category'', PStr ''puzzle'')]]"
    by (simp add: get_recommended_games_def new_manager_def default_stats_def
        default_game_stat_def find_favorite_category_def by_value_def has_category_def py_take_def Let_def
        save_stats_def)
  ultimately show ?thesis using h rd by blast
qed

section \<open>The merge keeps user data and follows the discovery\<close>

lemma dict_update_map_of:
  "distinct (map fst e) \<Longrightarrow> map_of (dict_update d e) = map_of d ++ map_of e"
proof (induction e arbitrary: d)
  case Nil
  then show ?case by (simp add: dict_update_def)
next
  case (Cons kv e)
  obtain k v where kv: "kv = (k, v)" by (cases kv)
  from Cons.prems kv have k: "map_of e k = None" and d: "distinct (map fst e)"
    by (auto simp: map_of_eq_None_iff)
  have step: "dict_update d ((k, v) # e) = dict_update (AList.update k v d) e"
    by (simp add: dict_update_def)
  show ?case
  proof (rule ext)
    fix x
    show "map_of (dict_update d (kv # e)) x = (map_of d ++ map_of (kv # e)) x"
      using k by (cases "x = k")
        (simp_all add: step Cons.IH [OF d] update_conv' kv map_add_def split: option.splits)
  qed
qed

lemma map_of_filter_keys:
  "map_of (filter (\<lambda>kv. fst kv \<notin> U) e) k = (if k \<in> U then None else map_of e k)"
  by (induction e) auto

lemma distinct_filter_keys:
  "distinct (map fst e) \<Longrightarrow> distinct (map fst (filter P e))"
  by (simp add: distinct_map_filter)

lemma merged_entry_fields:
  assumes "distinct (map fst discovered)"
  shows "map_of (dict_update existing (filter (\<lambda>kv. fst kv \<notin> set user_keys) discovered)) k
     = (if k \<in> set user_keys then map_of existing k
        else (case map_of discovered k of None \<Rightarrow> map_of existing k | Some v \<Rightarrow> Some v))"
  by (simp add: dict_update_map_of [OF distinct_filter_keys [OF assms]] map_add_def
      map_of_filter_keys split: option.splits)

lemma find_app:
  "find P (xs @ ys) = (case find P xs of None \<Rightarrow> find P ys | Some x \<Rightarrow> Some x)"
  by (induction xs) auto

lemma existing_lookup_map_of:
  "existing_lookup games acc = Inr eg \<Longrightarrow>
     map_of eg k =
       (case find (\<lambda>g. truthy (entry_file g) \<and> py_key (entry_file g) = Inr k)
               (rev (dicts_of games)) of
          Some g \<Rightarrow> Some g
        | None \<Rightarrow> map_of acc k)"
proof (induction games acc rule: existing_lookup.induct)
  case (1 existing_games)
  then show ?case by simp
next
  case (2 game rest existing_games)
  show ?case
  proof (cases "truthy (entry_file game)")
    case True
    with "2.prems" obtain k' where k': "py_key (entry_file game) = Inr k'"
      and rest: "existing_lookup rest (AList.update k' game existing_games) = Inr eg"
      by (auto split: sum.splits)
    from "2.IH"(1) [OF True k' rest] True k' show ?thesis
      by (auto simp: find_app update_conv' split: option.splits)
  next
    case False
    with "2.prems" have "existing_lookup rest existing_games = Inr eg" by simp
    from "2.IH"(2) [OF False this] False show ?thesis
      by (auto simp: find_app split: option.splits)
  qed
qed simp_all

lemma merge_games_rel:
  "merge_games eg disc = Inr merged \<Longrightarrow> list_all2 (merged_of eg) disc merged"
proof (induction disc arbitrary: merged)
  case Nil
  then show ?case by simp
next
  case (Cons d disc)
  from Cons.prems obtain f k where f: "map_of d ''file'' = Some f" and k: "py_key f = Inr k"
    by (auto split: option.splits sum.splits)
  show ?case
  proof (cases "map_of eg k")
    case None
    with Cons.prems f k obtain r where r: "merge_games eg disc = Inr r" and m: "merged = d # r"
      by (auto split: sum.splits)
    have "merged_of eg d d"
      using f k None by (auto simp: merged_of_def)
    with Cons.IH [OF r] m show ?thesis by simp
  next
    case (Some ex0)
    with Cons.prems f k obtain ex r where
      ex: "(if map_of ex0 ''id'' = None
            then (case map_of d ''id'' of None \<Rightarrow> Inl KeyError
                  | Some i \<Rightarrow> Inr (AList.update ''id'' i ex0))
            else Inr ex0) = Inr ex"
      and r: "merge_games eg disc = Inr r"
      and m: "merged = dict_update ex (filter (\<lambda>kv. fst kv \<notin> set user_keys) d) # r"
      by (auto split: sum.splits)
    from ex have "\<forall>key. key \<noteq> ''id'' \<longrightarrow> map_of ex key = map_of ex0 key"
      by (auto simp: update_conv' split: if_splits option.splits)
    then have "merged_of eg d (dict_update ex (filter (\<lambda>kv. fst kv \<notin> set user_keys) d))"
      using f k Some by (auto simp: merged_of_def)
    with Cons.IH [OF r] m show ?thesis by simp
  qed
qed

lemma merge_with_config_games:
  assumes "merge_with_config config_file discovered_games = Inr final_config"
  shows "\<exists>eg merged. existing_lookup (config_games config_file) [] = Inr eg \<and>
     merge_games eg discovered_games = Inr merged \<and>
     map_of final_config ''games'' = Some (PList (map PDict merged))"
proof (cases config_file)
  case None
  with assms show ?thesis
    by (auto simp: merge_with_config_def config_games_def Let_def update_conv'
        split: sum.splits if_splits)
next
  case (Some c)
  with assms obtain ec where ec: "c = PDict ec"
    by (cases c) (auto simp: merge_with_config_def)
  from assms Some ec show ?thesis
    by (auto simp: merge_with_config_def config_games_def Let_def update_conv'
        split: sum.splits if_splits option.splits)
qed

lemma catalog_entry_okD:
  assumes "catalog_entry_ok v"
  obtains d s where "v = PDict d" and "entry_file d = PStr s"
proof (cases v)
  case (PDict d)
  show ?thesis
  proof (cases "map_of d ''file''")
    case None
    with PDict that show ?thesis by (simp add: entry_file_def)
  next
    case (Some w)
    with assms PDict obtain s where "w = PStr s"
      by (cases w) (simp_all add: catalog_entry_ok_def)
    with Some PDict that show ?thesis by (simp add: entry_file_def)
  qed
qed (use assms in \<open>simp_all add: catalog_entry_ok_def\<close>)

lemma discovered_okD:
  assumes "discovered_ok d"
  obtains s i where "map_of d ''file'' = Some (PStr s)" and "map_of d ''id'' = Some i"
proof (cases "map_of d ''file''")
  case None
  with assms show ?thesis by (simp add: discovered_ok_def)
next
  case (Some w)
  with assms obtain s where w: "w = PStr s"
    by (cases w) (simp_all add: discovered_ok_def)
  from assms obtain i where "map_of d ''id'' = Some i"
    by (auto simp: discovered_ok_def)
  with Some w that show ?thesis by simp
qed

lemma existing_lookup_returns:
  "list_all catalog_entry_ok games \<Longrightarrow> \<exists>eg. existing_lookup games acc = Inr eg"
proof (induction games arbitrary: acc)
  case Nil
  then show ?case by simp
next
  case (Cons v games)
  from Cons.prems have hd: "catalog_entry_ok v" and rest: "list_all catalog_entry_ok games"
    by simp_all
  from hd obtain d s where v: "v = PDict d" and s: "entry_file d = PStr s"
    by (rule catalog_entry_okD)
  show ?case
  proof (cases "s = []")
    case True
    with Cons.IH [OF rest, of acc] v s show ?thesis by simp
  next
    case False
    with Cons.IH [OF rest, of "AList.update (PStr s) d acc"] v s show ?thesis by simp
  qed
qed

lemma merge_games_returns:
  "list_all discovered_ok disc \<Longrightarrow> \<exists>merged. merge_games eg disc = Inr merged"
proof (induction disc)
  case Nil
  then show ?case by simp
next
  case (Cons d disc)
  from Cons.prems have hd: "discovered_ok d" and rest: "list_all discovered_ok disc"
    by simp_all
  from hd obtain s i where s: "map_of d ''file'' = Some (PStr s)"
    and i: "map_of d ''id'' = Some i"
    by (rule discovered_okD)
  from Cons.IH [OF rest] obtain r where r: "merge_games eg disc = Inr r" by blast
  show ?case
  proof (cases "map_of eg (PStr s)")
    case None
    with s r show ?thesis by simp
  next
    case (Some ex0)
    with s i r show ?thesis by simp
  qed
qed

lemma catalog_okD:
  assumes "catalog_ok config_file"
  obtains ec games where
    "(case config_file of None \<Rightarrow> PDict [] | Some c \<Rightarrow> c) = PDict ec"
    and "py_iter (case map_of ec ''games'' of None \<Rightarrow> PList [] | Some g \<Rightarrow> g) = Inr games"
    and "list_all catalog_entry_ok games"
proof (cases config_file)
  case None
  with that [of "[]" "[]"] show ?thesis by simp
next
  case (Some c)
  with assms obtain ec where ec: "c = PDict ec"
    by (cases c) (simp_all add: catalog_ok_def)
  show ?thesis
  proof (cases "map_of ec ''games''")
    case None
    with Some ec that [of ec "[]"] show ?thesis by simp
  next
    case g: (Some g)
    with assms Some ec obtain gs where gs: "g = PList gs"
      by (cases g) (simp_all add: catalog_ok_def)
    with assms Some ec g have "list_all catalog_entry_ok gs"
      by (simp add: catalog_ok_def)
    with Some ec g gs that [of ec gs] show ?thesis by simp
  qed
qed

lemma merge_with_config_returns:
  assumes "catalog_ok config_file" and "list_all discovered_ok discovered_games"
  shows "\<exists>final_config. merge_with_config config_file discovered_games = Inr final_config"
proof -
  from assms(1) obtain ec games where
    c: "(case config_file of None \<Rightarrow> PDict [] | Some c \<Rightarrow> c) = PDict ec"
    and g: "py_iter (case map_of ec ''games'' of None \<Rightarrow> PList [] | Some g \<Rightarrow> g) = Inr games"
    and ok: "list_all catalog_entry_ok games"
    by (rule catalog_okD)
  from existing_lookup_returns [OF ok] obtain eg where
    eg: "existing_lookup games [] = Inr eg" by blast
  from merge_games_returns [OF assms(2)] obtain merged where
    "merge_games eg discovered_games = Inr merged" by blast
  with c g eg show ?thesis
    by (simp add: merge_with_config_def Let_def)
qed

lemma merged_of_file:
  assumes "merged_of eg d g" and "distinct (map fst d)"
  shows "map_of g ''file'' = map_of d ''file''"
proof -
  from assms(1) obtain f k where f: "map_of d ''file'' = Some f" and k: "py_key f = Inr k"
    and c: "case map_of eg k of
           None \<Rightarrow> g = d
         | Some ex0 \<Rightarrow>
             (\<exists>ex. g = dict_update ex (filter (\<lambda>kv. fst kv \<notin> set user_keys) d) \<and>
                (\<forall>key. key \<noteq> ''id'' \<longrightarrow> map_of ex key = map_of ex0 key))"
    by (auto simp: merged_of_def)
  show ?thesis
  proof (cases "map_of eg k")
    case None
    with c show ?thesis by simp
  next
    case (Some ex0)
    with c obtain ex where g: "g = dict_update ex (filter (\<lambda>kv. fst kv \<notin> set user_keys) d)"
      by auto
    have "map_of g ''file''
        = (if ''file'' \<in> set user_keys then map_of ex ''file''
           else (case map_of d ''file'' of None \<Rightarrow> map_of ex ''file'' | Some v \<Rightarrow> Some v))"
      unfolding g by (rule merged_entry_fields [OF assms(2)])
    then show ?thesis
      by (simp add: f user_keys_def)
  qed
qed

lemma list_all2_files:
  assumes "list_all2 (merged_of eg) disc merged"
    and "list_all (\<lambda>d. distinct (map fst d)) disc"
  shows "map (\<lambda>g. map_of g ''file'') merged = map (\<lambda>d. map_of d ''file'') disc"
  using assms
proof (induction disc merged rule: list_all2_induct)
  case Nil
  then show ?case by simp
next
  case (Cons d disc g merged)
  from Cons.prems have "distinct (map fst d)" and "list_all (\<lambda>d. distinct (map fst d)) disc"
    by simp_all
  with Cons.hyps(1) Cons.IH merged_of_file [of eg d g] show ?case by simp
qed

text \<open>
  C6. The merged \<open>games\<close> list has one entry per discovered game, in discovery order and
  with the discovered \<open>file\<close>; so an entry of the existing catalog whose filename is not
  among the discovered ones is not in the merged result. The merge returns for every
  well-formed catalog and discovery list.
\<close>

theorem merged_games_are_the_discovered:
  assumes "list_all (\<lambda>d. distinct (map fst d)) discovered_games"
  shows "(catalog_ok config_file \<and> list_all discovered_ok discovered_games \<longrightarrow>
            (\<exists>final_config. merge_with_config config_file discovered_games = Inr final_config)) \<and>
         (\<forall>final_config. merge_with_config config_file discovered_games = Inr final_config \<longrightarrow>
            (\<exists>merged. map_of final_config ''games'' = Some (PList (map PDict merged)) \<and>
               map (\<lambda>g. map_of g ''file'') merged
                 = map (\<lambda>d. map_of d ''file'') discovered_games \<and>
               (\<forall>e\<in>set (dicts_of (config_games config_file)).
                   map_of e ''file'' \<notin> set (map (\<lambda>d. map_of d ''file'') discovered_games) \<longrightarrow>
                   map_of e ''file'' \<notin> set (map (\<lambda>g. map_of g ''file'') merged))))"
proof (intro conjI impI allI)
  assume "catalog_ok config_file \<and> list_all discovered_ok discovered_games"
  then show "\<exists>final_config. merge_with_config config_file discovered_games = Inr final_config"
    using merge_with_config_returns by blast
next
  fix final_config
  assume "merge_with_config config_file discovered_games = Inr final_config"
  from merge_with_config_games [OF this] obtain eg merged where
    mg: "merge_games eg discovered_games = Inr merged"
    and g: "map_of final_config ''games'' = Some (PList (map PDict merged))"
    by blast
  from list_all2_files [OF merge_games_rel [OF mg] assms]
  have files: "map (\<lambda>g. map_of g ''file'') merged
      = map (\<lambda>d. map_of d ''file'') discovered_games" .
  then have "\<forall>e\<in>set (dicts_of (config_games config_file)).
      map_of e ''file'' \<notin> set (map (\<lambda>d. map_of d ''file'') discovered_games) \<longrightarrow>
      map_of e ''file'' \<notin> set (map (\<lambda>g. map_of g ''file'') merged)"
    by simp
  with g files show "\<exists>merged. map_of final_config ''games'' = Some (PList (map PDict merged)) \<and>
      map (\<lambda>g. map_of g ''file'') merged = map (\<lambda>d. map_of d ''file'') discovered_games \<and>
      (\<forall>e\<in>set (dicts_of (config_games config_file)).
          map_of e ''file'' \<notin> set (map (\<lambda>d. map_of d ''file'') discovered_games) \<longrightarrow>
          map_of e ''file'' \<notin> set (map (\<lambda>g. map_of g ''file'') merged))"
    by blast
qed

theorem merged_games_are_the_discovered_witness:
  "list_all (\<lambda>d. distinct (map fst d))
     [[(''id'', PStr ''a''), (''file'', PStr ''a.py'')],
      [(''id'', PStr ''b''), (''file'', PStr ''b.py'')]] \<and>
   (\<exists>final_config merged.
      merge_with_config
        (Some (PDict [(''games'', PList
           [PDict [(''id'', PStr ''a''), (''file'', PStr ''a.py''), (''playtime'', PNum 120)],
            PDict [(''id'', PStr ''gone''), (''file'', PStr ''gone.py''),
                   (''playtime'', PNum 5)]])]))
        [[(''id'', PStr ''a''), (''file'', PStr ''a.py'')],
         [(''id'', PStr ''b''), (''file'', PStr ''b.py'')]]
        = Inr final_config \<and>
      map_of final_config ''games'' = Some (PList (map PDict merged)) \<and>
      map (\<lambda>g. map_of g ''file'') merged = [Some (PStr ''a.py''), Some (PStr ''b.py'')] \<and>
      Some (PStr ''gone.py'') \<notin> set (map (\<lambda>g. map_of g ''file'') merged))"
  (is "list_all _ ?disc \<and> (\<exists>final_config merged. merge_with_config ?cfg ?disc = Inr final_config \<and> _)")
proof -
  have h: "list_all (\<lambda>d. distinct (map fst d)) ?disc" by simp
  have ok: "catalog_ok ?cfg \<and> list_all discovered_ok ?disc"
    by (simp add: catalog_ok_def catalog_entry_ok_def discovered_ok_def)
  note t = merged_games_are_the_discovered [OF h, of ?cfg]
  from t [THEN conjunct1, rule_format, OF ok] obtain final_config where
    f: "merge_with_config ?cfg ?disc = Inr final_config" ..
  from t [THEN conjunct2, THEN spec, THEN mp, OF f] obtain merged where
    g: "map_of final_config ''games'' = Some (PList (map PDict merged))"
    and files: "map (\<lambda>g. map_of g ''file'') merged = map (\<lambda>d. map_of d ''file'') ?disc"
    by (elim exE conjE)
  from files have fs: "map (\<lambda>g. map_of g ''file'') merged
      = [Some (PStr ''a.py''), Some (PStr ''b.py'')]"
    by simp
  then have n: "Some (PStr ''gone.py'') \<notin> set (map (\<lambda>g. map_of g ''file'') merged)"
    by simp
  show ?thesis
    by (rule conjI, rule h, rule exI [of _ final_config], rule exI [of _ merged],
        intro conjI, rule f, rule g, rule fs, rule n)
qed

lemma merged_of_matched:
  assumes "merged_of eg d g" and "distinct (map fst d)"
    and "existing_lookup (config_games config_file) [] = Inr eg"
    and "matched_entry config_file d = Some existing"
  shows "(\<forall>k\<in>set user_keys. map_of g k = map_of existing k) \<and>
         (\<forall>k v. k \<notin> set user_keys \<and> map_of d k = Some v \<longrightarrow> map_of g k = Some v)"
proof -
  from assms(1) obtain f k where f: "map_of d ''file'' = Some f" and k: "py_key f = Inr k"
    and c: "case map_of eg k of
           None \<Rightarrow> g = d
         | Some ex0 \<Rightarrow>
             (\<exists>ex. g = dict_update ex (filter (\<lambda>kv. fst kv \<notin> set user_keys) d) \<and>
                (\<forall>key. key \<noteq> ''id'' \<longrightarrow> map_of ex key = map_of ex0 key))"
    by (auto simp: merged_of_def)
  have fd: "entry_file d = f"
    by (simp add: entry_file_def f)
  have pred: "(\<lambda>game. truthy (entry_file game) \<and> map_of d ''file'' \<noteq> None \<and>
                 py_key (entry_file game) = py_key (entry_file d))
      = (\<lambda>g. truthy (entry_file g) \<and> py_key (entry_file g) = Inr k)"
    by (simp add: fd f k)
  from assms(4)
  have fnd: "find (\<lambda>g. truthy (entry_file g) \<and> py_key (entry_file g) = Inr k)
          (rev (dicts_of (config_games config_file))) = Some existing"
    by (simp only: matched_entry_def pred)
  have lk: "map_of eg k = Some existing"
    by (simp only: existing_lookup_map_of [OF assms(3), of k] fnd option.case)
  from c have "\<exists>ex. g = dict_update ex (filter (\<lambda>kv. fst kv \<notin> set user_keys) d) \<and>
                (\<forall>key. key \<noteq> ''id'' \<longrightarrow> map_of ex key = map_of existing key)"
    by (simp only: lk option.case)
  then obtain ex where
    g: "g = dict_update ex (filter (\<lambda>kv. fst kv \<notin> set user_keys) d)"
    and ex: "\<forall>key. key \<noteq> ''id'' \<longrightarrow> map_of ex key = map_of existing key"
    by blast
  have eq: "map_of g key
      = (if key \<in> set user_keys then map_of ex key
         else (case map_of d key of None \<Rightarrow> map_of ex key | Some v \<Rightarrow> Some v))" for key
    unfolding g by (rule merged_entry_fields [OF assms(2)])
  have noid: "''id'' \<notin> set user_keys" by (simp add: user_keys_def)
  have keep: "map_of ex key = map_of existing key" if "key \<in> set user_keys" for key
  proof -
    have "key \<noteq> ''id''"
    proof
      assume "key = ''id''"
      with that noid show False by (simp only:)
    qed
    with ex show ?thesis by (simp only: simp_thms)
  qed
  have one: "\<forall>key\<in>set user_keys. map_of g key = map_of existing key"
  proof
    fix key assume "key \<in> set user_keys"
    then show "map_of g key = map_of existing key"
      by (simp only: eq [of key] keep if_True)
  qed
  have two: "\<forall>key v. key \<notin> set user_keys \<and> map_of d key = Some v \<longrightarrow> map_of g key = Some v"
  proof (intro allI impI)
    fix key v assume "key \<notin> set user_keys \<and> map_of d key = Some v"
    then show "map_of g key = Some v"
      by (simp only: eq [of key] if_False option.case)
  qed
  from one two show ?thesis by (rule conjI)
qed

text \<open>
  C2. When the merge returns, the merged entry of every discovered game that is matched
  with an existing catalog entry has \<open>playtime\<close>, \<open>high_score\<close>, \<open>last_played\<close> and
  \<open>completion_rate\<close> exactly as the existing entry has them (absent when absent there),
  whatever the discovery holds for them, and every other field of the discovered game
  with its discovered value.
\<close>

theorem merge_preserves_user_fields:
  assumes "list_all (\<lambda>d. distinct (map fst d)) discovered_games"
  shows "(catalog_ok config_file \<and> list_all discovered_ok discovered_games \<longrightarrow>
            (\<exists>final_config. merge_with_config config_file discovered_games = Inr final_config)) \<and>
         (\<forall>final_config. merge_with_config config_file discovered_games = Inr final_config \<longrightarrow>
            (\<exists>merged. map_of final_config ''games'' = Some (PList (map PDict merged)) \<and>
               length merged = length discovered_games \<and>
               (\<forall>i existing. i < length discovered_games \<and>
                   matched_entry config_file (discovered_games ! i) = Some existing \<longrightarrow>
                   (\<forall>k\<in>set user_keys. map_of (merged ! i) k = map_of existing k) \<and>
                   (\<forall>k v. k \<notin> set user_keys \<and> map_of (discovered_games ! i) k = Some v \<longrightarrow>
                          map_of (merged ! i) k = Some v))))"
proof (intro conjI impI allI)
  assume "catalog_ok config_file \<and> list_all discovered_ok discovered_games"
  then show "\<exists>final_config. merge_with_config config_file discovered_games = Inr final_config"
    using merge_with_config_returns by blast
next
  fix final_config
  assume "merge_with_config config_file discovered_games = Inr final_config"
  from merge_with_config_games [OF this] obtain eg merged where
    eg: "existing_lookup (config_games config_file) [] = Inr eg"
    and mg: "merge_games eg discovered_games = Inr merged"
    and g: "map_of final_config ''games'' = Some (PList (map PDict merged))"
    by blast
  note rel = merge_games_rel [OF mg]
  then have len: "length merged = length discovered_games"
    by (simp add: list_all2_lengthD)
  have "(\<forall>k\<in>set user_keys. map_of (merged ! i) k = map_of existing k) \<and>
        (\<forall>k v. k \<notin> set user_keys \<and> map_of (discovered_games ! i) k = Some v \<longrightarrow>
               map_of (merged ! i) k = Some v)"
    if "i < length discovered_games \<and>
        matched_entry config_file (discovered_games ! i) = Some existing" for i existing
  proof -
    from that have i: "i < length discovered_games"
      and m: "matched_entry config_file (discovered_games ! i) = Some existing" by simp_all
    from rel i have r: "merged_of eg (discovered_games ! i) (merged ! i)"
      by (simp add: list_all2_nthD)
    from assms i have d: "distinct (map fst (discovered_games ! i))"
      by (simp add: list_all_length)
    from merged_of_matched [OF r d eg m] show ?thesis .
  qed
  then have main: "\<forall>i existing. i < length discovered_games \<and>
          matched_entry config_file (discovered_games ! i) = Some existing \<longrightarrow>
          (\<forall>k\<in>set user_keys. map_of (merged ! i) k = map_of existing k) \<and>
          (\<forall>k v. k \<notin> set user_keys \<and> map_of (discovered_games ! i) k = Some v \<longrightarrow>
                 map_of (merged ! i) k = Some v)"
    by (intro allI impI)
  show "\<exists>merged. map_of final_config ''games'' = Some (PList (map PDict merged)) \<and>
      length merged = length discovered_games \<and>
      (\<forall>i existing. i < length discovered_games \<and>
          matched_entry config_file (discovered_games ! i) = Some existing \<longrightarrow>
          (\<forall>k\<in>set user_keys. map_of (merged ! i) k = map_of existing k) \<and>
          (\<forall>k v. k \<notin> set user_keys \<and> map_of (discovered_games ! i) k = Some v \<longrightarrow>
                 map_of (merged ! i) k = Some v))"
    by (rule exI [of _ merged], intro conjI) (rule g, rule len, rule main)
qed

theorem merge_preserves_user_fields_witness:
  "list_all (\<lambda>d. distinct (map fst d))
     [[(''id'', PStr ''a''), (''title'', PStr ''New A''), (''file'', PStr ''a.py''),
       (''playtime'', PNum 0), (''high_score'', PNum 0)],
      [(''id'', PStr ''b''), (''title'', PStr ''B''), (''file'', PStr ''b.py''),
       (''playtime'', PNum 0), (''high_score'', PNum 0)]] \<and>
   (\<exists>final_config merged.
      merge_with_config
        (Some (PDict [(''games'', PList
           [PDict [(''id'', PStr ''a''), (''file'', PStr ''a.py''), (''title'', PStr ''Old A''),
                   (''playtime'', PNum 120), (''high_score'', PNum 900)],
            PDict [(''id'', PStr ''gone''), (''file'', PStr ''gone.py''),
                   (''playtime'', PNum 5)]])]))
        [[(''id'', PStr ''a''), (''title'', PStr ''New A''), (''file'', PStr ''a.py''),
          (''playtime'', PNum 0), (''high_score'', PNum 0)],
         [(''id'', PStr ''b''), (''title'', PStr ''B''), (''file'', PStr ''b.py''),
          (''playtime'', PNum 0), (''high_score'', PNum 0)]]
        = Inr final_config \<and>
      map_of final_config ''games'' = Some (PList (map PDict merged)) \<and>
      map_of (merged ! 0) ''playtime'' = Some (PNum 120) \<and>
      map_of (merged ! 0) ''high_score'' = Some (PNum 900) \<and>
      map_of (merged ! 0) ''title'' = Some (PStr ''New A''))"
  (is "list_all _ ?disc \<and> (\<exists>final_config merged. merge_with_config ?cfg ?disc = Inr final_config \<and> _)")
proof -
  let ?ex = "[(''id'', PStr ''a''), (''file'', PStr ''a.py''), (''title'', PStr ''Old A''),
                   (''playtime'', PNum 120), (''high_score'', PNum 900)]"
  have h: "list_all (\<lambda>d. distinct (map fst d)) ?disc" by simp
  have ok: "catalog_ok ?cfg \<and> list_all discovered_ok ?disc"
    by (simp add: catalog_ok_def catalog_entry_ok_def discovered_ok_def)
  have m: "(0::nat) < length ?disc \<and> matched_entry ?cfg (?disc ! 0) = Some ?ex"
    by (simp add: matched_entry_def config_games_def entry_file_def)
  note t = merge_preserves_user_fields [OF h, of ?cfg]
  from t [THEN conjunct1, rule_format, OF ok] obtain final_config where
    f: "merge_with_config ?cfg ?disc = Inr final_config" ..
  from t [THEN conjunct2, rule_format, OF f] obtain merged where
    g: "map_of final_config ''games'' = Some (PList (map PDict merged))"
    and a: "\<forall>i existing. i < length ?disc \<and> matched_entry ?cfg (?disc ! i) = Some existing \<longrightarrow>
          (\<forall>k\<in>set user_keys. map_of (merged ! i) k = map_of existing k) \<and>
          (\<forall>k v. k \<notin> set user_keys \<and> map_of (?disc ! i) k = Some v \<longrightarrow>
                 map_of (merged ! i) k = Some v)"
    by (elim exE conjE)
  note am = a [THEN spec, THEN spec, THEN mp, OF m]
  have u: "\<forall>k\<in>set user_keys. map_of (merged ! 0) k = map_of ?ex k"
    and o: "\<forall>k v. k \<notin> set user_keys \<and> map_of (?disc ! 0) k = Some v \<longrightarrow>
                 map_of (merged ! 0) k = Some v"
    by (rule am [THEN conjunct1], rule am [THEN conjunct2])
  from u have "map_of (merged ! 0) ''playtime'' = Some (PNum 120)"
    and "map_of (merged ! 0) ''high_score'' = Some (PNum 900)"
    by (simp_all add: user_keys_def)
  moreover from o [THEN spec, THEN spec, of "''title''" "PStr ''New A''"]
  have "map_of (merged ! 0) ''title'' = Some (PStr ''New A'')"
    by (simp add: user_keys_def)
  ultimately show ?thesis using h f g by blast
qed

section \<open>The precedence of the title rules\<close>

lemma title_from_comments_find:
  "title_from_comments ops ls
     = map_option (comment_title ops) (find (title_comment ops) (map (strip ops) ls))"
  by (induction ls) (auto simp: Let_def title_comment_def comment_title_def)

lemma find_first_index:
  "i < length xs \<Longrightarrow> P (xs ! i) \<Longrightarrow> (\<forall>j<i. \<not> P (xs ! j)) \<Longrightarrow> find P xs = Some (xs ! i)"
proof (induction xs arbitrary: i)
  case Nil
  then show ?case by simp
next
  case (Cons x xs)
  show ?case
  proof (cases i)
    case 0
    with Cons.prems show ?thesis by simp
  next
    case (Suc n)
    with Cons.prems have "\<not> P x" by auto
    moreover from Cons.prems Suc have "find P xs = Some (xs ! n)"
      by (intro Cons.IH) auto
    ultimately show ?thesis using Suc by simp
  qed
qed

lemma find_none: "(\<forall>x\<in>set xs. \<not> P x) \<Longrightarrow> find P xs = None"
  by (induction xs) auto

text \<open>
  C3 as stated fails: the code has no documentation-block rule. A file that opens with
  a docstring and has neither a title comment nor \<open>TITLE\<close> gets the title-cased
  filename, not the first docstring line; and a file with a \<open>TITLE = ...\<close> assignment
  gets that value, where the stated precedence gives the filename. (Both texts are
  ASCII, so the string methods are those of \<open>ascii_ops\<close>.)
\<close>

theorem extract_title_docstring_counterexample:
  "extract_title ascii_ops
      (dquotes3 @ ''Space Blaster'' @ [newline] @ ''A shooter'' @ [newline] @ dquotes3
        @ [newline] @ ''import pygame'')
      ''space_blaster_2x'' = ''Space Blaster 2X'' \<and>
   spec_extract_title ascii_ops
      (dquotes3 @ ''Space Blaster'' @ [newline] @ ''A shooter'' @ [newline] @ dquotes3
        @ [newline] @ ''import pygame'')
      ''space_blaster_2x'' = ''Space Blaster'' \<and>
   extract_title ascii_ops
      (''import pygame'' @ [newline] @ ''TITLE = '' @ [CHR 0x22] @ ''Mega Maze'' @ [CHR 0x22])
      ''mm'' = ''Mega Maze'' \<and>
   spec_extract_title ascii_ops
      (''import pygame'' @ [newline] @ ''TITLE = '' @ [CHR 0x22] @ ''Mega Maze'' @ [CHR 0x22])
      ''mm'' = ''Mm''"
  by code_simp

text \<open>
  C3, amended. On any source text, over any characters and whatever the string methods
  \<open>strip\<close>, \<open>lower\<close> and \<open>title\<close> do: the first of the leading 20 lines that, stripped,
  is a comment naming \<open>title\<close> or \<open>name\<close> with a \<open>:\<close> or \<open>-\<close> gives the title (the
  stripped text after the first \<open>:\<close>, or after the first \<open>-\<close> when it has no \<open>:\<close>);
  failing that, when the text contains \<open>TITLE\<close> and the rest of that line holds an \<open>=\<close>,
  the title is the text after the \<open>=\<close> without surrounding blanks and quotes; failing
  that, and when the text does not contain \<open>GAME_NAME\<close>, it is the filename stem with \<open>_\<close>
  turned into spaces, in title case. (The comment above the second rule announces a
  lookup of \<open>TITLE\<close> or \<open>GAME_NAME\<close> variables, and the code looks for \<open>TITLE\<close> only: what
  a text with \<open>GAME_NAME\<close> and no usable \<open>TITLE\<close> gets is left open here.)
\<close>

theorem extract_title_precedence:
  "(\<forall>i. i < 20 \<and> i < length (split_on (chr ops newline) content) \<and>
        title_comment ops (strip ops (split_on (chr ops newline) content ! i)) \<and>
        (\<forall>j<i. \<not> title_comment ops (strip ops (split_on (chr ops newline) content ! j))) \<longrightarrow>
        extract_title ops content filename
          = comment_title ops (strip ops (split_on (chr ops newline) content ! i))) \<and>
   ((\<forall>l\<in>set (take 20 (split_on (chr ops newline) content)).
        \<not> title_comment ops (strip ops l)) \<and>
      py_contains (lit ops ''TITLE'') content \<and>
      chr ops CHR ''='' \<in> set (variable_line ops content) \<longrightarrow>
        extract_title ops content filename
          = strip_chars [chr ops CHR 0x22, chr ops CHR 0x27]
              (strip ops (after_first (chr ops CHR ''='') (variable_line ops content)))) \<and>
   ((\<forall>l\<in>set (take 20 (split_on (chr ops newline) content)).
        \<not> title_comment ops (strip ops l)) \<and>
      \<not> (py_contains (lit ops ''TITLE'') content \<and>
         chr ops CHR ''='' \<in> set (variable_line ops content)) \<and>
      \<not> py_contains (lit ops ''GAME_NAME'') content \<longrightarrow>
        extract_title ops content filename
          = title ops (replace_char (chr ops CHR ''_'') (chr ops CHR '' '') filename))"
proof (intro conjI allI impI)
  fix i
  let ?ls = "split_on (chr ops newline) content"
  assume a: "i < 20 \<and> i < length ?ls \<and>
        title_comment ops (strip ops (?ls ! i)) \<and>
        (\<forall>j<i. \<not> title_comment ops (strip ops (?ls ! j)))"
  let ?xs = "map (strip ops) (take 20 ?ls)"
  from a have len: "i < length ?xs" by simp
  from a have at: "?xs ! i = strip ops (?ls ! i)" by simp
  from a have before: "\<forall>j<i. ?xs ! j = strip ops (?ls ! j)" by simp
  have "find (title_comment ops) ?xs = Some (?xs ! i)"
  proof (rule find_first_index [OF len])
    from a at show "title_comment ops (?xs ! i)" by simp
    from a before show "\<forall>j<i. \<not> title_comment ops (?xs ! j)" by simp
  qed
  then show "extract_title ops content filename = comment_title ops (strip ops (?ls ! i))"
    by (simp add: extract_title_def title_from_comments_find at)
next
  let ?ls = "split_on (chr ops newline) content"
  assume a: "(\<forall>l\<in>set (take 20 ?ls). \<not> title_comment ops (strip ops l)) \<and>
      py_contains (lit ops ''TITLE'') content \<and>
      chr ops CHR ''='' \<in> set (variable_line ops content)"
  then have "find (title_comment ops) (map (strip ops) (take 20 ?ls)) = None"
    by (intro find_none) auto
  with a show "extract_title ops content filename
      = strip_chars [chr ops CHR 0x22, chr ops CHR 0x27]
          (strip ops (after_first (chr ops CHR ''='') (variable_line ops content)))"
    by (simp add: extract_title_def title_from_comments_find title_from_variable_def Let_def)
next
  let ?ls = "split_on (chr ops newline) content"
  assume a: "(\<forall>l\<in>set (take 20 ?ls). \<not> title_comment ops (strip ops l)) \<and>
      \<not> (py_contains (lit ops ''TITLE'') content \<and>
         chr ops CHR ''='' \<in> set (variable_line ops content)) \<and>
      \<not> py_contains (lit ops ''GAME_NAME'') content"
  then have "find (title_comment ops) (map (strip ops) (take 20 ?ls)) = None"
    by (intro find_none) auto
  with a show "extract_title ops content filename
      = title ops (replace_char (chr ops CHR ''_'') (chr ops CHR '' '') filename)"
    by (auto simp: extract_title_def title_from_comments_find title_from_variable_def Let_def)
qed

theorem extract_title_precedence_witness:
  "title_comment ascii_ops (strip ascii_ops (split_on (chr ascii_ops newline)
      (''# Game Title: Space Run'' @ [newline] @ ''# Name - other'' @ [newline] @ ''TITLE = 1'') ! 0)) \<and>
   extract_title ascii_ops
      (''# Game Title: Space Run'' @ [newline] @ ''# Name - other'' @ [newline] @ ''TITLE = 1'')
      ''space_run'' = ''Space Run'' \<and>
   py_contains (lit ascii_ops ''TITLE'')
      (''import pygame'' @ [newline] @ ''TITLE = '' @ [CHR 0x22] @ ''Mega Maze'' @ [CHR 0x22]) \<and>
   extract_title ascii_ops
      (''import pygame'' @ [newline] @ ''TITLE = '' @ [CHR 0x22] @ ''Mega Maze'' @ [CHR 0x22])
      ''mm'' = ''Mega Maze'' \<and>
   extract_title ascii_ops ''import pygame'' ''retro_breakout'' = ''Retro Breakout''"
proof -
  let ?c = "(''# Game Title: Space Run'' @ [newline] @ ''# Name - other'' @ [newline] @ ''TITLE = 1'')"
  let ?v = "(''import pygame'' @ [newline] @ ''TITLE = '' @ [CHR 0x22] @ ''Mega Maze'' @ [CHR 0x22])"
  let ?nl = "chr ascii_ops newline"
  have c1: "(0::nat) < 20 \<and> 0 < length (split_on ?nl ?c) \<and>
        title_comment ascii_ops (strip ascii_ops (split_on ?nl ?c ! 0)) \<and>
        (\<forall>j<0::nat. \<not> title_comment ascii_ops (strip ascii_ops (split_on ?nl ?c ! j)))"
    by (intro conjI) (code_simp, code_simp, code_simp, simp)
  from extract_title_precedence [of ascii_ops ?c "''space_run''", THEN conjunct1, THEN spec,
      THEN mp, OF c1]
  have "extract_title ascii_ops ?c ''space_run''
      = comment_title ascii_ops (strip ascii_ops (split_on ?nl ?c ! 0))" .
  also have "\<dots> = ''Space Run''" by code_simp
  finally have r1: "extract_title ascii_ops ?c ''space_run'' = ''Space Run''" .
  have nv: "\<forall>l\<in>set (take 20 (split_on ?nl ?v)). \<not> title_comment ascii_ops (strip ascii_ops l)"
    by code_simp
  have v2: "py_contains (lit ascii_ops ''TITLE'') ?v" by code_simp
  have v3: "chr ascii_ops CHR ''='' \<in> set (variable_line ascii_ops ?v)" by code_simp
  from extract_title_precedence [of ascii_ops ?v "''mm''", THEN conjunct2, THEN conjunct1,
      THEN mp, OF conjI [OF nv conjI [OF v2 v3]]]
  have "extract_title ascii_ops ?v ''mm''
      = strip_chars [chr ascii_ops CHR 0x22, chr ascii_ops CHR 0x27]
          (strip ascii_ops (after_first (chr ascii_ops CHR ''='') (variable_line ascii_ops ?v)))" .
  also have "\<dots> = ''Mega Maze''" by code_simp
  finally have r2: "extract_title ascii_ops ?v ''mm'' = ''Mega Maze''" .
  have nf: "\<forall>l\<in>set (take 20 (split_on ?nl ''import pygame'')).
      \<not> title_comment ascii_ops (strip ascii_ops l)"
    by code_simp
  have f2: "\<not> (py_contains (lit ascii_ops ''TITLE'') ''import pygame'' \<and>
      chr ascii_ops CHR ''='' \<in> set (variable_line ascii_ops ''import pygame''))"
    by code_simp
  have f3: "\<not> py_contains (lit ascii_ops ''GAME_NAME'') ''import pygame''"
    by code_simp
  from extract_title_precedence [of ascii_ops "''import pygame''" "''retro_breakout''",
      THEN conjunct2, THEN conjunct2, THEN mp, OF conjI [OF nf conjI [OF f2 f3]]]
  have "extract_title ascii_ops ''import pygame'' ''retro_breakout''
      = title ascii_ops (replace_char (chr ascii_ops CHR ''_'') (chr ascii_ops CHR '' '')
          ''retro_breakout'')" .
  also have "\<dots> = ''Retro Breakout''" by code_simp
  finally have r3: "extract_title ascii_ops ''import pygame'' ''retro_breakout''
      = ''Retro Breakout''" .
  from c1 have h1: "title_comment ascii_ops (strip ascii_ops (split_on ?nl ?c ! 0))"
    by (elim conjE)
  show ?thesis
    by (intro conjI) (rule h1, rule r1, rule v2, rule r2, rule r3)
qed

section \<open>The scan of the games folder\<close>

lemma game_info_nonempty: "game_info rt file_name content \<noteq> []"
  by (simp add: game_info_def)

lemma analyze_valid:
  "valid_file rt f \<Longrightarrow>
     \<exists>content. snd f = Some content \<and>
       analyze_game_file rt f = Inr (Some (game_info rt (fst f) content), [])"
  by (cases "snd f") (simp_all add: valid_file_def analyze_game_file_def)

lemma analyze_invalid:
  "\<not> valid_file rt f \<Longrightarrow>
     analyze_game_file rt f =
       (if printable rt f then Inr (None, [Error_analyzing (fst f)])
        else Inl UnicodeEncodeError)"
  by (cases "snd f") (simp_all add: valid_file_def analyze_game_file_def error_handler_def)

text \<open>
  What a scan of a list of files gives. When the error line of every analyzed file that
  cannot be read or parsed can be printed, the scan returns the game of every other
  analyzed file, in order, and has printed one line per failing file. Otherwise it
  raises at the first failing file whose line cannot be printed, having printed the
  lines of the failing files before it.
\<close>

lemma scan_files_eq:
  "scan_files rt files =
     (let fs = filter (\<lambda>f. \<not> startswith ''__'' (fst f)) files in
      if list_all (\<lambda>f. valid_file rt f \<or> printable rt f) fs
      then Inr (games_of rt (filter (valid_file rt) fs),
                map (\<lambda>f. Error_analyzing (fst f)) (filter (\<lambda>f. \<not> valid_file rt f) fs))
      else Inl (UnicodeEncodeError,
                map (\<lambda>f. Error_analyzing (fst f))
                  (filter (\<lambda>f. \<not> valid_file rt f) (reached rt fs))))"
proof (induction files)
  case Nil
  then show ?case by (simp add: games_of_def)
next
  case (Cons f files)
  show ?case
  proof (cases "startswith ''__'' (fst f)")
    case True
    with Cons.IH show ?thesis by simp
  next
    case False
    show ?thesis
    proof (cases "valid_file rt f")
      case True
      from analyze_valid [OF True] obtain content where
        c: "snd f = Some content"
        and a: "analyze_game_file rt f = Inr (Some (game_info rt (fst f) content), [])"
        by blast
      from False True c a Cons.IH show ?thesis
        by (simp add: Let_def games_of_def reached_def game_info_nonempty)
    next
      case nv: False
      show ?thesis
      proof (cases "printable rt f")
        case True
        with analyze_invalid [OF nv]
        have a: "analyze_game_file rt f = Inr (None, [Error_analyzing (fst f)])" by simp
        from False nv True a Cons.IH show ?thesis
          by (simp add: Let_def games_of_def reached_def)
      next
        case np: False
        with analyze_invalid [OF nv]
        have a: "analyze_game_file rt f = Inl UnicodeEncodeError" by simp
        from False nv np a show ?thesis
          by (simp add: Let_def reached_def)
      qed
    qed
  qed
qed

lemma length_games_of_valid:
  "length (games_of rt (filter (valid_file rt) files)) = length (filter (valid_file rt) files)"
  by (induction files) (auto simp: games_of_def valid_file_def split: option.splits)

lemma scan_games_folder_eq:
  "scan_games_folder rt (Some entries) discovered_games =
     (if list_all (\<lambda>f. valid_file rt f \<or> printable rt f) (game_files entries)
      then Inr (games_of rt (filter (valid_file rt) (game_files entries)),
                games_of rt (filter (valid_file rt) (game_files entries)),
                map (\<lambda>f. Error_analyzing (fst f))
                  (filter (\<lambda>f. \<not> valid_file rt f) (game_files entries)))
      else Inl (UnicodeEncodeError, discovered_games,
                map (\<lambda>f. Error_analyzing (fst f))
                  (filter (\<lambda>f. \<not> valid_file rt f) (reached rt (game_files entries)))))"
  by (simp add: scan_games_folder_def Let_def scan_files_eq game_files_def)

text \<open>
  As long as every error line can be printed, a file that cannot be read or parsed takes
  nothing away from the files around it: the scan returns, with the game of every
  analyzed file that can be read and parses, in listing order, and one printed line
  for every other analyzed file.
\<close>

lemma scan_continues_when_printable:
  assumes "list_all (\<lambda>f. valid_file rt f \<or> printable rt f) (game_files entries)"
  shows "scan_games_folder rt (Some entries) discovered_games =
       Inr (games_of rt (filter (valid_file rt) (game_files entries)),
            games_of rt (filter (valid_file rt) (game_files entries)),
            map (\<lambda>f. Error_analyzing (fst f))
              (filter (\<lambda>f. \<not> valid_file rt f) (game_files entries))) \<and>
     length (games_of rt (filter (valid_file rt) (game_files entries)))
       = length (filter (valid_file rt) (game_files entries))"
  using assms by (simp add: scan_games_folder_eq length_games_of_valid)

text \<open>
  C7 fails on the code when the error line of the unparsable file cannot be printed.
  The folder holds two valid files and a file whose name has a character outside ASCII
  (an e with an acute accent) and whose text does not parse; standard output encodes
  ASCII only. The handler of
  \<open>_analyze_game_file\<close> catches the SyntaxError, but its \<open>print\<close> raises
  UnicodeEncodeError, which nothing catches: the scan raises instead of returning the
  two games, \<open>maze.py\<close> is never analyzed and the object keeps its old list. With the
  unparsable file named \<open>broken.py\<close> the same scan returns the two games and prints one
  error line.
\<close>

theorem scan_aborts_when_error_line_unprintable:
  "scan_games_folder
     \<lparr>parses = (\<lambda>text. text \<noteq> ''def broken(:''), set_order = (\<lambda>xs. xs),
      printable = ascii_stdout, str_strip = ascii_strip, str_lower = ascii_lower,
      str_title = ascii_title, str_split = ascii_split\<rparr>
     (Some
      [(''runner.py'', Some ''import pygame''),
       (''caf'' @ [CHR 0xE9] @ ''.py'', Some ''def broken(:''),
       (''maze.py'', Some ''class Maze: pass'')]) []
   = Inl (UnicodeEncodeError, [], []) \<and>
   (\<exists>runner maze.
      scan_games_folder
        \<lparr>parses = (\<lambda>text. text \<noteq> ''def broken(:''), set_order = (\<lambda>xs. xs),
         printable = ascii_stdout, str_strip = ascii_strip, str_lower = ascii_lower,
         str_title = ascii_title, str_split = ascii_split\<rparr>
        (Some
         [(''runner.py'', Some ''import pygame''),
          (''broken.py'', Some ''def broken(:''),
          (''maze.py'', Some ''class Maze: pass'')]) []
      = Inr ([runner, maze], [runner, maze], [Error_analyzing ''broken.py'']) \<and>
      map_of runner ''file'' = Some (PStr ''runner.py'') \<and>
      map_of maze ''file'' = Some (PStr ''maze.py''))"
proof -
  let ?rt = "\<lparr>parses = (\<lambda>text. text \<noteq> ''def broken(:''), set_order = (\<lambda>xs. xs),
      printable = ascii_stdout, str_strip = ascii_strip, str_lower = ascii_lower,
      str_title = ascii_title, str_split = ascii_split\<rparr>"
  let ?bad = "[(''runner.py'', Some ''import pygame''),
       (''caf'' @ [CHR 0xE9] @ ''.py'', Some ''def broken(:''),
       (''maze.py'', Some ''class Maze: pass'')]"
  let ?ok = "[(''runner.py'', Some ''import pygame''),
          (''broken.py'', Some ''def broken(:''),
          (''maze.py'', Some ''class Maze: pass'')]"
  have one: "scan_games_folder ?rt (Some ?bad) [] = Inl (UnicodeEncodeError, [], [])"
    by code_simp
  have two: "scan_games_folder ?rt (Some ?ok) []
      = Inr ([game_info ?rt ''runner.py'' ''import pygame'',
              game_info ?rt ''maze.py'' ''class Maze: pass''],
             [game_info ?rt ''runner.py'' ''import pygame'',
              game_info ?rt ''maze.py'' ''class Maze: pass''],
             [Error_analyzing ''broken.py''])"
    by code_simp
  have f1: "map_of (game_info ?rt ''runner.py'' ''import pygame'') ''file''
      = Some (PStr ''runner.py'')"
    by (simp add: game_info_def)
  have f2: "map_of (game_info ?rt ''maze.py'' ''class Maze: pass'') ''file''
      = Some (PStr ''maze.py'')"
    by (simp add: game_info_def)
  from two f1 f2 have "\<exists>runner maze.
      scan_games_folder ?rt (Some ?ok) []
      = Inr ([runner, maze], [runner, maze], [Error_analyzing ''broken.py'']) \<and>
      map_of runner ''file'' = Some (PStr ''runner.py'') \<and>
      map_of maze ''file'' = Some (PStr ''maze.py'')"
    by blast
  with one show ?thesis by (rule conjI)
qed

text \<open>
  C10. When the games folder does not exist the scan returns the empty list, prints
  nothing and leaves the list the object holds as it was. Files whose names start with
  two underscores do not take part in a scan: what the scan gives (the result, or the
  exception of an error line that cannot be printed) is what it gives for the folder
  without them, no returned game has such a file name and no error line names one.
\<close>

theorem scan_skips_missing_folder_and_dunder_files:
  "scan_games_folder rt None discovered_games = Inr ([], discovered_games, []) \<and>
   scan_games_folder rt (Some entries) discovered_games
     = scan_games_folder rt
         (Some (filter (\<lambda>f. \<not> startswith ''__'' (fst f)) entries)) discovered_games \<and>
   (\<forall>found held out.
      scan_games_folder rt (Some entries) discovered_games = Inr (found, held, out) \<longrightarrow>
        (\<forall>g\<in>set found. \<exists>n. map_of g ''file'' = Some (PStr n) \<and> \<not> startswith ''__'' n) \<and>
        (\<forall>n. Error_analyzing n \<in> set out \<longrightarrow> \<not> startswith ''__'' n)) \<and>
   (\<forall>e held out.
      scan_games_folder rt (Some entries) discovered_games = Inl (e, held, out) \<longrightarrow>
        (\<forall>n. Error_analyzing n \<in> set out \<longrightarrow> \<not> startswith ''__'' n))"
proof (intro conjI allI impI ballI)
  show "scan_games_folder rt None discovered_games = Inr ([], discovered_games, [])"
    by (simp add: scan_games_folder_def)
next
  have "game_files (filter (\<lambda>f. \<not> startswith ''__'' (fst f)) entries) = game_files entries"
    by (induction entries) (auto simp: game_files_def)
  then show "scan_games_folder rt (Some entries) discovered_games
     = scan_games_folder rt
         (Some (filter (\<lambda>f. \<not> startswith ''__'' (fst f)) entries)) discovered_games"
    by (simp only: scan_games_folder_eq)
next
  fix found held out g
  assume r: "scan_games_folder rt (Some entries) discovered_games = Inr (found, held, out)"
    and "g \<in> set found"
  then have "g \<in> set (games_of rt (filter (valid_file rt) (game_files entries)))"
    by (simp add: scan_games_folder_eq split: if_splits)
  then obtain f where f: "f \<in> set (game_files entries)"
    and g: "g \<in> set (case snd f of None \<Rightarrow> []
                      | Some content \<Rightarrow> [game_info rt (fst f) content])"
    by (auto simp: games_of_def)
  from g obtain content where "g = game_info rt (fst f) content"
    by (cases "snd f") auto
  then have "map_of g ''file'' = Some (PStr (fst f))"
    by (simp add: game_info_def)
  moreover from f have "\<not> startswith ''__'' (fst f)"
    by (simp add: game_files_def)
  ultimately show "\<exists>n. map_of g ''file'' = Some (PStr n) \<and> \<not> startswith ''__'' n"
    by blast
next
  fix found held out n
  assume r: "scan_games_folder rt (Some entries) discovered_games = Inr (found, held, out)"
    and "Error_analyzing n \<in> set out"
  then have "Error_analyzing n \<in> set (map (\<lambda>f. Error_analyzing (fst f))
      (filter (\<lambda>f. \<not> valid_file rt f) (game_files entries)))"
    by (auto simp: scan_games_folder_eq split: if_splits)
  then obtain f where "f \<in> set (game_files entries)" and "n = fst f"
    by auto
  then show "\<not> startswith ''__'' n"
    by (simp add: game_files_def)
next
  fix e held out n
  assume r: "scan_games_folder rt (Some entries) discovered_games = Inl (e, held, out)"
    and "Error_analyzing n \<in> set out"
  then have "Error_analyzing n \<in> set (map (\<lambda>f. Error_analyzing (fst f))
      (filter (\<lambda>f. \<not> valid_file rt f) (reached rt (game_files entries))))"
    by (auto simp: scan_games_folder_eq split: if_splits)
  then obtain f where "f \<in> set (reached rt (game_files entries))" and "n = fst f"
    by auto
  then have "f \<in> set (game_files entries)" and "n = fst f"
    by (auto simp: reached_def dest: set_takeWhileD)
  then show "\<not> startswith ''__'' n"
    by (simp add: game_files_def)
qed

theorem scan_skips_missing_folder_and_dunder_files_witness:
  "scan_games_folder
     \<lparr>parses = (\<lambda>text. True), set_order = (\<lambda>xs. xs), printable = ascii_stdout,
      str_strip = ascii_strip, str_lower = ascii_lower, str_title = ascii_title,
      str_split = ascii_split\<rparr> None [] = Inr ([], [], []) \<and>
   scan_games_folder
     \<lparr>parses = (\<lambda>text. False), set_order = (\<lambda>xs. xs), printable = (\<lambda>f. False),
      str_strip = ascii_strip, str_lower = ascii_lower, str_title = ascii_title,
      str_split = ascii_split\<rparr>
     (Some [(''__init__.py'', Some ''import os''), (''__main__.py'', None)]) []
   = Inr ([], [], [])"
proof -
  let ?rt = "\<lparr>parses = (\<lambda>text. False), set_order = (\<lambda>xs. xs), printable = (\<lambda>f. False),
      str_strip = ascii_strip, str_lower = ascii_lower, str_title = ascii_title,
      str_split = ascii_split\<rparr>"
  note t = scan_skips_missing_folder_and_dunder_files [of ?rt "[]"
      "[(''__init__.py'', Some ''import os''), (''__main__.py'', None)]"]
  have "filter (\<lambda>f. \<not> startswith ''__'' (fst f))
      [(''__init__.py'', Some ''import os''), (''__main__.py'', None)] = []"
    by code_simp
  with t [THEN conjunct2, THEN conjunct1]
  have "scan_games_folder ?rt
     (Some [(''__init__.py'', Some ''import os''), (''__main__.py'', None)]) []
     = scan_games_folder ?rt (Some []) []"
    by (simp only:)
  also have "\<dots> = Inr ([], [], [])"
    by (simp add: scan_games_folder_def)
  finally have two: "scan_games_folder ?rt
     (Some [(''__init__.py'', Some ''import os''), (''__main__.py'', None)]) []
     = Inr ([], [], [])" .
  have one: "scan_games_folder
     \<lparr>parses = (\<lambda>text. True), set_order = (\<lambda>xs. xs), printable = ascii_stdout,
      str_strip = ascii_strip, str_lower = ascii_lower, str_title = ascii_title,
      str_split = ascii_split\<rparr> None [] = Inr ([], [], [])"
    by (simp add: scan_games_folder_def)
  from one two show ?thesis by (rule conjI)
qed

end
